theory Spec2Isabelle
  imports Complex_Main
begin

section \<open>JavaScript values\<close>

text \<open>
  The module \<^verbatim>\<open>src/atomic-counter.ts\<close> works on JavaScript numbers, strings and objects.
  A \<open>js_number\<close> is a mathematical integer or \<open>NaN\<close>: counters hold integers, and for
  integers of magnitude at most \<open>2^53 - 1\<close> the functions below agree with
  \<^verbatim>\<open>Number.prototype.toString\<close> and \<^verbatim>\<open>parseInt\<close>; the rounding of larger integers is
  outside the model. Characters are code units below 256.
\<close>

datatype js_number = Num int | NaN

definition MAX_SAFE_INTEGER :: int where
  "MAX_SAFE_INTEGER = 2 ^ 53 - 1"

text \<open>
  A value that is passed to a callback, thrown, or used to settle a promise:
  \<open>Number v\<close> is a number, \<open>Error m\<close> is \<^verbatim>\<open>new Error(m)\<close> created by this module, and
  \<open>External x\<close> is any value that comes from outside the module (the reason of a rejected
  store request, a value thrown by a caller's callback).
\<close>

datatype js_value = Undefined | Number int | Error string | External string

text \<open>\<^verbatim>\<open>x || d\<close> for an optional string: \<^verbatim>\<open>undefined\<close> and \<^verbatim>\<open>""\<close> are falsy.\<close>

definition or_string :: "string option \<Rightarrow> string \<Rightarrow> string" where
  "or_string x d = (case x of None \<Rightarrow> d | Some s \<Rightarrow> if s = [] then d else s)"

text \<open>
  The member \<^verbatim>\<open>increment\<close> of the options may be any number. \<open>Exact x\<close> is an integer
  of magnitude at most \<open>2^53 - 1\<close>, or \<open>NaN\<close>. Every other number (one with a fraction,
  one of larger magnitude, an infinity) is \<open>Printed s\<close>, where \<open>s\<close> is the text that
  \<^verbatim>\<open>Number.prototype.toString\<close> gives for it; that text identifies the number.
\<close>

datatype amount = Exact js_number | Printed string

text \<open>
  \<^verbatim>\<open>x || d\<close> for an optional number: \<^verbatim>\<open>undefined\<close>, \<^verbatim>\<open>0\<close> and \<^verbatim>\<open>NaN\<close> are falsy, every
  other number is truthy.
\<close>

definition or_number :: "amount option \<Rightarrow> amount \<Rightarrow> amount" where
  "or_number x d =
     (case x of
        None \<Rightarrow> d
      | Some (Exact NaN) \<Rightarrow> d
      | Some (Exact (Num n)) \<Rightarrow> if n = 0 then d else Exact (Num n)
      | Some (Printed s) \<Rightarrow> Printed s)"

subsection \<open>\<^verbatim>\<open>Number.prototype.toString\<close>\<close>

definition digit_char :: "nat \<Rightarrow> char" where
  "digit_char d = char_of (48 + d)"

fun digits10 :: "nat \<Rightarrow> string" where
  "digits10 n =
     (if n < 10 then [digit_char n] else digits10 (n div 10) @ [digit_char (n mod 10)])"

declare digits10.simps [simp del]

definition toString :: "js_number \<Rightarrow> string" where
  "toString x =
     (case x of
        NaN \<Rightarrow> ''NaN''
      | Num n \<Rightarrow> if n < 0 then CHR ''-'' # digits10 (nat (- n)) else digits10 (nat n))"

text \<open>\<^verbatim>\<open>toString\<close> on the member \<^verbatim>\<open>increment\<close> of the options.\<close>

definition amount_toString :: "amount \<Rightarrow> string" where
  "amount_toString x = (case x of Exact y \<Rightarrow> toString y | Printed s \<Rightarrow> s)"

subsection \<open>\<^verbatim>\<open>parseInt(string, 10)\<close>\<close>

text \<open>
  ECMAScript \<^verbatim>\<open>parseInt\<close> with radix 10: leading white space is skipped, one sign is read,
  the longest prefix of decimal digits is the numeral, and anything after it is ignored.
  Without a digit the result is \<open>NaN\<close>.
\<close>

definition is_StrWhiteSpaceChar :: "char \<Rightarrow> bool" where
  "is_StrWhiteSpaceChar c =
     ((of_char c :: nat) = 9 \<or> (of_char c :: nat) = 10 \<or> (of_char c :: nat) = 11 \<or>
      (of_char c :: nat) = 12 \<or> (of_char c :: nat) = 13 \<or> (of_char c :: nat) = 32 \<or>
      (of_char c :: nat) = 160)"

definition is_digit :: "char \<Rightarrow> bool" where
  "is_digit c = (48 \<le> (of_char c :: nat) \<and> (of_char c :: nat) \<le> 57)"

definition digit_value :: "char \<Rightarrow> nat" where
  "digit_value c = of_char c - 48"

definition numeral_value :: "string \<Rightarrow> nat" where
  "numeral_value z = foldl (\<lambda>a c. 10 * a + digit_value c) 0 z"

text \<open>The numeral at the start of a string without sign: its longest prefix of digits.\<close>

definition parse_unsigned :: "string \<Rightarrow> js_number" where
  "parse_unsigned s =
     (let z = takeWhile is_digit s
      in if z = [] then NaN else Num (int (numeral_value z)))"

definition negate :: "js_number \<Rightarrow> js_number" where
  "negate x = (case x of NaN \<Rightarrow> NaN | Num n \<Rightarrow> Num (- n))"

definition parseInt :: "string \<Rightarrow> js_number" where
  "parseInt str =
     (case dropWhile is_StrWhiteSpaceChar str of
        [] \<Rightarrow> NaN
      | c # cs \<Rightarrow>
          if c = CHR ''-'' then negate (parse_unsigned cs)
          else if c = CHR ''+'' then parse_unsigned cs
          else parse_unsigned (c # cs))"

text \<open>
  The text of a number that is \<open>Printed\<close>: it is not the text of \<open>NaN\<close> and not the
  numeral of an integer of magnitude at most \<open>2^53 - 1\<close>, which are \<open>Exact\<close>.
\<close>

definition other_number :: "string \<Rightarrow> bool" where
  "other_number s =
     (s \<noteq> ''NaN'' \<and>
      (case parseInt s of
         NaN \<Rightarrow> True
       | Num n \<Rightarrow> \<not> (toString (Num n) = s \<and> \<bar>n\<bar> \<le> MAX_SAFE_INTEGER)))"

section \<open>Requests and replies of the store client\<close>

text \<open>The tagged union \<^verbatim>\<open>AttributeValue\<close> of the AWS SDK.\<close>

datatype AttributeValue =
    S string
  | N string
  | B string
  | SS "string list"
  | NS "string list"
  | BS "string list"
  | M "(string \<times> AttributeValue) list"
  | L "AttributeValue list"
  | NULL bool
  | BOOL bool

text \<open>\<^verbatim>\<open>!countValue.N\<close>: the member \<^verbatim>\<open>N\<close> is missing or the empty string.\<close>

definition not_N :: "AttributeValue \<Rightarrow> bool" where
  "not_N v = (case v of N s \<Rightarrow> s = [] | _ \<Rightarrow> True)"

definition the_N :: "AttributeValue \<Rightarrow> string" where
  "the_N v = (case v of N s \<Rightarrow> s | _ \<Rightarrow> [])"

text \<open>
  A command input (\<^verbatim>\<open>UpdateItemCommandInput\<close>, \<^verbatim>\<open>GetItemCommandInput\<close>, or the partial
  input of the \<^verbatim>\<open>dynamodb\<close> option) is an object: a map from field names to values.
\<close>

datatype request_field =
    Str string
  | Bool bool
  | AttrMap "(string \<times> AttributeValue) list"
  | NameMap "(string \<times> string) list"
  | StrList "string list"
  | UndefinedField

type_synonym request = "string \<rightharpoonup> request_field"

datatype command = UpdateItemCommand request | GetItemCommand request

text \<open>
  The output of a command: \<^verbatim>\<open>Attributes\<close> is read by \<open>increment\<close>, \<^verbatim>\<open>Item\<close> by
  \<open>getLastValue\<close>; either may be missing. Each is an object whose own members are the
  attributes the store has returned.
\<close>

record command_output =
  Attributes :: "(string \<rightharpoonup> AttributeValue) option"
  Item :: "(string \<rightharpoonup> AttributeValue) option"

text \<open>
  \<^verbatim>\<open>object[name]\<close> on such an object: an own member is found first; otherwise the name
  may be that of a member every object inherits from \<^verbatim>\<open>Object.prototype\<close>. An inherited
  member is a function or an object: it is truthy and has no member \<^verbatim>\<open>N\<close>.
\<close>

definition Object_prototype_names :: "string list" where
  "Object_prototype_names =
     [''constructor'', ''hasOwnProperty'', ''isPrototypeOf'', ''propertyIsEnumerable'',
      ''toLocaleString'', ''toString'', ''valueOf'', ''__proto__'', ''__defineGetter__'',
      ''__defineSetter__'', ''__lookupGetter__'', ''__lookupSetter__'']"

datatype member = Own AttributeValue | Inherited | Missing

definition get_member :: "(string \<rightharpoonup> AttributeValue) \<Rightarrow> string \<Rightarrow> member" where
  "get_member obj name =
     (case obj name of
        Some v \<Rightarrow> Own v
      | None \<Rightarrow> if name \<in> set Object_prototype_names then Inherited else Missing)"

text \<open>The promise returned by \<^verbatim>\<open>client.send\<close> is fulfilled with an output or rejected.\<close>

datatype reply = SendFulfilled command_output | SendRejected js_value

text \<open>
  A store client is identified by its construction parameters;
  \<^verbatim>\<open>new DynamoDBClient({})\<close> is \<open>DynamoDBClient []\<close>.
\<close>

datatype DynamoDBClient = DynamoDBClient "(string \<times> string) list"

text \<open>
  The store itself is external. \<^verbatim>\<open>client.send(command)\<close> is a parameter of the model:
  given the client, the command and the state of the store it yields the reply and the
  new state of the store.
\<close>

type_synonym 'st send = "DynamoDBClient \<Rightarrow> command \<Rightarrow> 'st \<Rightarrow> reply \<times> 'st"

section \<open>Constants of the module\<close>

definition DEFAULT_TABLE_NAME :: string where
  "DEFAULT_TABLE_NAME = ''AtomicCounters''"

definition DEFAULT_KEY_ATTRIBUTE :: string where
  "DEFAULT_KEY_ATTRIBUTE = ''id''"

definition DEFAULT_COUNT_ATTRIBUTE :: string where
  "DEFAULT_COUNT_ATTRIBUTE = ''lastValue''"

definition DEFAULT_INCREMENT :: js_number where
  "DEFAULT_INCREMENT = Num 1"

section \<open>Options, callbacks and effects\<close>

text \<open>
  A caller's callback is opaque. The model keeps what this module can observe of a call:
  that it happened (the log entry \<open>Call name this argument\<close>), and whether the callback
  returned or threw (\<open>cb_throws cb a = Some e\<close>: called with \<open>a\<close> it throws \<open>e\<close>).
\<close>

record callback =
  cb_name :: string
  cb_throws :: "js_value \<Rightarrow> js_value option"

datatype event = Call string "string option" js_value

text \<open>
  The interface \<^verbatim>\<open>AtomicCounterOptions\<close>; a missing member is \<open>None\<close>. The member
  \<^verbatim>\<open>increment\<close> is named \<open>increment_amount\<close> and the member \<^verbatim>\<open>context\<close> is named
  \<open>callback_context\<close> here; a falsy \<^verbatim>\<open>context\<close> is \<open>None\<close>.
\<close>

record AtomicCounterOptions =
  tableName :: "string option"
  keyAttribute :: "string option"
  countAttribute :: "string option"
  increment_amount :: "amount option"
  success :: "callback option"
  error :: "callback option"
  complete :: "callback option"
  callback_context :: "string option"
  dynamodb :: "request option"
  client :: "DynamoDBClient option"

text \<open>The default argument \<^verbatim>\<open>options = {}\<close>.\<close>

definition no_options :: AtomicCounterOptions where
  "no_options =
     \<lparr>tableName = None, keyAttribute = None, countAttribute = None, increment_amount = None,
      success = None, error = None, complete = None, callback_context = None, dynamodb = None,
      client = None\<rparr>"

text \<open>
  A statement that may throw: it maps a state to the thrown value, if any, and the new
  state. \<open>seq\<close> is \<^verbatim>\<open>a; b\<close>, \<open>try_catch\<close> is \<^verbatim>\<open>try { a } catch (e) { h(e) }\<close>.
\<close>

type_synonym 's effect = "'s \<Rightarrow> js_value option \<times> 's"

definition seq :: "'s effect \<Rightarrow> 's effect \<Rightarrow> 's effect" where
  "seq a b s = (case a s of (None, s') \<Rightarrow> b s' | (Some e, s') \<Rightarrow> (Some e, s'))"

definition throw :: "js_value \<Rightarrow> 's effect" where
  "throw e s = (Some e, s)"

definition try_catch :: "'s effect \<Rightarrow> (js_value \<Rightarrow> 's effect) \<Rightarrow> 's effect" where
  "try_catch a h s = (case a s of (None, s') \<Rightarrow> (None, s') | (Some e, s') \<Rightarrow> h e s')"

text \<open>
  The state of one call of \<open>increment\<close> or \<open>getLastValue\<close> after \<^verbatim>\<open>client.send\<close>: the
  callbacks of the options called so far, and the state of the \<^verbatim>\<open>Promise<number>\<close>
  built at lines 181 and 244. \<^verbatim>\<open>resolve\<close> and \<^verbatim>\<open>reject\<close> settle a pending promise and
  do nothing to a settled one.
\<close>

datatype promise_state = Pending | Resolved int | Rejected js_value

record op_state =
  calls :: "event list"
  promise :: promise_state

definition resolve :: "int \<Rightarrow> op_state effect" where
  "resolve v s = (None, if promise s = Pending then s\<lparr>promise := Resolved v\<rparr> else s)"

definition reject :: "js_value \<Rightarrow> op_state effect" where
  "reject e s = (None, if promise s = Pending then s\<lparr>promise := Rejected e\<rparr> else s)"

text \<open>Lines 140-152. The only argument list ever passed has one element.\<close>

definition executeCallback ::
  "callback option \<Rightarrow> string option \<Rightarrow> js_value \<Rightarrow> op_state effect" where
  "executeCallback cb ctx arg s =
     (case cb of
        None \<Rightarrow> (None, s)
      | Some f \<Rightarrow>
          (case ctx of
             Some this \<Rightarrow> (cb_throws f arg, s\<lparr>calls := calls s @ [Call (cb_name f) (Some this) arg]\<rparr>)
           | None \<Rightarrow> (cb_throws f arg, s\<lparr>calls := calls s @ [Call (cb_name f) None arg]\<rparr>)))"

section \<open>Client manager\<close>

text \<open>
  The process state: the module variable \<^verbatim>\<open>dynamoClient\<close> (line 40) and the state of the
  external store.
\<close>

record 'st world =
  dynamoClient :: "DynamoDBClient option"
  store :: 'st

text \<open>Lines 125-135.\<close>

definition getDynamoClient ::
  "DynamoDBClient option \<Rightarrow> 'st world \<Rightarrow> DynamoDBClient \<times> 'st world" where
  "getDynamoClient clientOverride w =
     (case clientOverride of
        Some c \<Rightarrow> (c, w)
      | None \<Rightarrow>
          (case dynamoClient w of
             None \<Rightarrow> (DynamoDBClient [], w\<lparr>dynamoClient := Some (DynamoDBClient [])\<rparr>)
           | Some c \<Rightarrow> (c, w)))"

text \<open>Lines 291-293.\<close>

definition setClient :: "DynamoDBClient \<Rightarrow> 'st world \<Rightarrow> 'st world" where
  "setClient c w = w\<lparr>dynamoClient := Some c\<rparr>"

text \<open>Lines 298-300.\<close>

definition getClient :: "'st world \<Rightarrow> DynamoDBClient \<times> 'st world" where
  "getClient w = getDynamoClient None w"

section \<open>The promise-like object\<close>

text \<open>
  The class \<^verbatim>\<open>AtomicCounterPromiseImpl\<close> (lines 70-120). The member \<^verbatim>\<open>value\<close> is named
  \<open>value_field\<close>. \<open>invoked\<close> is not a member of the class: it logs the calls of the
  observers, in order.
\<close>

record AtomicCounterPromiseImpl =
  doneCallbacks :: "callback list"
  failCallbacks :: "callback list"
  alwaysCallbacks :: "callback list"
  resolved :: bool
  rejected :: bool
  value_field :: js_value
  invoked :: "event list"

text \<open>The member initialisers of lines 71-76.\<close>

definition new_AtomicCounterPromiseImpl :: AtomicCounterPromiseImpl where
  "new_AtomicCounterPromiseImpl =
     \<lparr>doneCallbacks = [], failCallbacks = [], alwaysCallbacks = [],
      resolved = False, rejected = False, value_field = Undefined, invoked = []\<rparr>"

text \<open>\<^verbatim>\<open>callback(x)\<close> on an observer.\<close>

definition invoke :: "callback \<Rightarrow> js_value \<Rightarrow> AtomicCounterPromiseImpl effect" where
  "invoke cb x p = (cb_throws cb x, p\<lparr>invoked := invoked p @ [Call (cb_name cb) None x]\<rparr>)"

text \<open>\<^verbatim>\<open>callbacks.forEach(cb => cb(x))\<close>: an observer that throws ends the loop.\<close>

fun forEach :: "callback list \<Rightarrow> js_value \<Rightarrow> AtomicCounterPromiseImpl effect" where
  "forEach [] x p = (None, p)"
| "forEach (cb # cbs) x p =
     (case invoke cb x p of
        (None, p') \<Rightarrow> forEach cbs x p'
      | (Some e, p') \<Rightarrow> (Some e, p'))"

text \<open>The handler passed to \<^verbatim>\<open>then\<close> (lines 80-85).\<close>

definition on_fulfilled :: "int \<Rightarrow> AtomicCounterPromiseImpl effect" where
  "on_fulfilled v p =
     (let p1 = p\<lparr>resolved := True, value_field := Number v\<rparr>
      in seq (forEach (doneCallbacks p1) (Number v))
             (\<lambda>p2. forEach (alwaysCallbacks p2) (Number v) p2) p1)"

text \<open>The handler passed to \<^verbatim>\<open>catch\<close> (lines 86-91).\<close>

definition on_rejected :: "js_value \<Rightarrow> AtomicCounterPromiseImpl effect" where
  "on_rejected e p =
     (let p1 = p\<lparr>rejected := True, value_field := e\<rparr>
      in seq (forEach (failCallbacks p1) e)
             (\<lambda>p2. forEach (alwaysCallbacks p2) e p2) p1)"

text \<open>
  The chain \<^verbatim>\<open>this.promise.then(...).catch(...)\<close> of the constructor (lines 79-91), run
  when the wrapped promise is in the given state: nothing while it is pending; the
  \<^verbatim>\<open>catch\<close> handler runs when the promise is rejected and also when the \<^verbatim>\<open>then\<close> handler
  throws. A value thrown by the \<^verbatim>\<open>catch\<close> handler is an unhandled rejection.
\<close>

definition settle :: "promise_state \<Rightarrow> AtomicCounterPromiseImpl effect" where
  "settle st p =
     (case st of
        Pending \<Rightarrow> (None, p)
      | Resolved v \<Rightarrow> try_catch (on_fulfilled v) on_rejected p
      | Rejected e \<Rightarrow> on_rejected e p)"

text \<open>Lines 94-101.\<close>

definition done_method :: "callback \<Rightarrow> AtomicCounterPromiseImpl effect" where
  "done_method cb p =
     (if resolved p then invoke cb (value_field p) p
      else if \<not> rejected p then (None, p\<lparr>doneCallbacks := doneCallbacks p @ [cb]\<rparr>)
      else (None, p))"

text \<open>Lines 103-110.\<close>

definition fail_method :: "callback \<Rightarrow> AtomicCounterPromiseImpl effect" where
  "fail_method cb p =
     (if rejected p then invoke cb (value_field p) p
      else if \<not> resolved p then (None, p\<lparr>failCallbacks := failCallbacks p @ [cb]\<rparr>)
      else (None, p))"

text \<open>Lines 112-119.\<close>

definition always_method :: "callback \<Rightarrow> AtomicCounterPromiseImpl effect" where
  "always_method cb p =
     (if resolved p \<or> rejected p then invoke cb (value_field p) p
      else (None, p\<lparr>alwaysCallbacks := alwaysCallbacks p @ [cb]\<rparr>))"

section \<open>increment\<close>

text \<open>
  \<^verbatim>\<open>{ ...a, ...b }\<close>: the members of \<open>b\<close> replace those of \<open>a\<close>; spreading \<^verbatim>\<open>undefined\<close>
  adds nothing.
\<close>

definition spread :: "request \<Rightarrow> request option \<Rightarrow> request" where
  "spread derived extra = (case extra of None \<Rightarrow> derived | Some d \<Rightarrow> derived ++ d)"

text \<open>The members of \<^verbatim>\<open>params\<close> that lines 164-177 write out.\<close>

definition increment_derived :: "string \<Rightarrow> AtomicCounterOptions \<Rightarrow> request" where
  "increment_derived counterId options =
     (let keyAttribute = or_string (keyAttribute options) DEFAULT_KEY_ATTRIBUTE;
          countAttribute = or_string (countAttribute options) DEFAULT_COUNT_ATTRIBUTE;
          incrementValue = or_number (increment_amount options) (Exact DEFAULT_INCREMENT)
      in [''TableName'' \<mapsto> Str (or_string (tableName options) DEFAULT_TABLE_NAME),
          ''Key'' \<mapsto> AttrMap [(keyAttribute, S counterId)],
          ''UpdateExpression'' \<mapsto> Str (''ADD '' @ countAttribute @ '' :increment''),
          ''ExpressionAttributeValues'' \<mapsto> AttrMap [('':increment'', N (amount_toString incrementValue))],
          ''ReturnValues'' \<mapsto> Str ''UPDATED_NEW''])"

text \<open>The object \<^verbatim>\<open>params\<close> of lines 168-179: the \<^verbatim>\<open>dynamodb\<close> option is spread last.\<close>

definition increment_params :: "string \<Rightarrow> AtomicCounterOptions \<Rightarrow> request" where
  "increment_params counterId options =
     spread (increment_derived counterId options) (dynamodb options)"

text \<open>
  Lines 187-200: the new count read from the output, or the error thrown
  (\<open>Inl\<close>). \<^verbatim>\<open>isNaN\<close> is the case \<open>NaN\<close>. An inherited member passes the test of line
  187 and fails that of line 192.
\<close>

definition increment_count :: "string \<Rightarrow> command_output \<Rightarrow> js_value + int" where
  "increment_count countAttr data =
     (case Attributes data of
        None \<Rightarrow> Inl (Error ''No count attribute returned from DynamoDB'')
      | Some attrs \<Rightarrow>
          (case get_member attrs countAttr of
             Missing \<Rightarrow> Inl (Error ''No count attribute returned from DynamoDB'')
           | Inherited \<Rightarrow> Inl (Error ''Count attribute is not a number'')
           | Own countValue \<Rightarrow>
               if not_N countValue then Inl (Error ''Count attribute is not a number'')
               else
                 (case parseInt (the_N countValue) of
                    NaN \<Rightarrow>
                      Inl (Error (''Could not parse incremented value ('' @ the_N countValue @ '')''))
                  | Num newCountValue \<Rightarrow> Inr newCountValue)))"

text \<open>
  The three statements that report a failure; they are the \<^verbatim>\<open>catch\<close> block of lines
  207-209 and 273-275 and the \<^verbatim>\<open>catch\<close> handler of lines 213-215 and 279-281.
\<close>

definition report_error :: "AtomicCounterOptions \<Rightarrow> js_value \<Rightarrow> op_state effect" where
  "report_error options e =
     seq (executeCallback (error options) (callback_context options) e)
       (seq (executeCallback (complete options) (callback_context options) e)
          (reject e))"

text \<open>The three statements that report a value (lines 202-205 and 268-271).\<close>

definition report_value :: "AtomicCounterOptions \<Rightarrow> int \<Rightarrow> op_state effect" where
  "report_value options v =
     seq (executeCallback (success options) (callback_context options) (Number v))
       (seq (executeCallback (complete options) (callback_context options) (Number v))
          (resolve v))"

text \<open>The handler passed to \<^verbatim>\<open>then\<close> at lines 185-211.\<close>

definition increment_then :: "AtomicCounterOptions \<Rightarrow> string \<Rightarrow> command_output \<Rightarrow> op_state effect" where
  "increment_then options countAttr data =
     try_catch
       (case increment_count countAttr data of
          Inl e \<Rightarrow> throw e
        | Inr newCountValue \<Rightarrow> report_value options newCountValue)
       (report_error options)"

text \<open>
  \<^verbatim>\<open>client.send(command).then(h).catch(...)\<close> once the store has replied: the \<^verbatim>\<open>catch\<close>
  handler runs when the request is rejected and also when \<open>h\<close> throws.
\<close>

definition on_reply ::
  "AtomicCounterOptions \<Rightarrow> (command_output \<Rightarrow> op_state effect) \<Rightarrow> reply \<Rightarrow> op_state effect" where
  "on_reply options h r =
     (case r of
        SendFulfilled data \<Rightarrow> try_catch (h data) (report_error options)
      | SendRejected e \<Rightarrow> report_error options e)"

text \<open>
  What one call has done once the store has replied: the process state, the client and
  the command of \<^verbatim>\<open>client.send\<close>, the callbacks of the options that were called, and the
  state of the promise that the returned object wraps.
\<close>

record 'st finished =
  world_after :: "'st world"
  client_used :: DynamoDBClient
  command_sent :: command
  callbacks_called :: "event list"
  outcome :: promise_state

text \<open>Lines 162-220.\<close>

definition increment ::
  "'st send \<Rightarrow> string \<Rightarrow> AtomicCounterOptions \<Rightarrow> 'st world \<Rightarrow> 'st finished" where
  "increment send counterId options w =
     (let (client, w1) = getDynamoClient (client options) w;
          countAttribute = or_string (countAttribute options) DEFAULT_COUNT_ATTRIBUTE;
          command = UpdateItemCommand (increment_params counterId options);
          (r, st) = send client command (store w1);
          (_, s) = on_reply options (increment_then options countAttribute) r
                     \<lparr>calls = [], promise = Pending\<rparr>
      in \<lparr>world_after = w1\<lparr>store := st\<rparr>, client_used = client, command_sent = command,
          callbacks_called = calls s, outcome = promise s\<rparr>)"

section \<open>getLastValue\<close>

text \<open>The members of \<^verbatim>\<open>params\<close> that lines 232-240 write out.\<close>

definition getLastValue_derived :: "string \<Rightarrow> AtomicCounterOptions \<Rightarrow> request" where
  "getLastValue_derived counterId options =
     (let keyAttribute = or_string (keyAttribute options) DEFAULT_KEY_ATTRIBUTE;
          countAttribute = or_string (countAttribute options) DEFAULT_COUNT_ATTRIBUTE
      in [''TableName'' \<mapsto> Str (or_string (tableName options) DEFAULT_TABLE_NAME),
          ''Key'' \<mapsto> AttrMap [(keyAttribute, S counterId)],
          ''ProjectionExpression'' \<mapsto> Str countAttribute])"

text \<open>The object \<^verbatim>\<open>params\<close> of lines 235-242.\<close>

definition getLastValue_params :: "string \<Rightarrow> AtomicCounterOptions \<Rightarrow> request" where
  "getLastValue_params counterId options =
     spread (getLastValue_derived counterId options) (dynamodb options)"

text \<open>
  Lines 250-266: the last value read from the output, or the error thrown. An inherited
  member passes the test of line 252 and fails that of line 257.
\<close>

definition getLastValue_count :: "string \<Rightarrow> command_output \<Rightarrow> js_value + int" where
  "getLastValue_count countAttr data =
     (case Item data of
        None \<Rightarrow> Inr 0
      | Some item \<Rightarrow>
          (case get_member item countAttr of
             Missing \<Rightarrow> Inr 0
           | Inherited \<Rightarrow> Inl (Error ''Count attribute is not a number'')
           | Own countValue \<Rightarrow>
               if not_N countValue then Inl (Error ''Count attribute is not a number'')
               else
                 (case parseInt (the_N countValue) of
                    NaN \<Rightarrow> Inl (Error (''Could not parse count value ('' @ the_N countValue @ '')''))
                  | Num lastValue \<Rightarrow> Inr lastValue)))"

text \<open>The handler passed to \<^verbatim>\<open>then\<close> at lines 248-277.\<close>

definition getLastValue_then :: "AtomicCounterOptions \<Rightarrow> string \<Rightarrow> command_output \<Rightarrow> op_state effect" where
  "getLastValue_then options countAttr data =
     try_catch
       (case getLastValue_count countAttr data of
          Inl e \<Rightarrow> throw e
        | Inr lastValue \<Rightarrow> report_value options lastValue)
       (report_error options)"

text \<open>Lines 230-286.\<close>

definition getLastValue ::
  "'st send \<Rightarrow> string \<Rightarrow> AtomicCounterOptions \<Rightarrow> 'st world \<Rightarrow> 'st finished" where
  "getLastValue send counterId options w =
     (let (client, w1) = getDynamoClient (client options) w;
          countAttribute = or_string (countAttribute options) DEFAULT_COUNT_ATTRIBUTE;
          command = GetItemCommand (getLastValue_params counterId options);
          (r, st) = send client command (store w1);
          (_, s) = on_reply options (getLastValue_then options countAttribute) r
                     \<lparr>calls = [], promise = Pending\<rparr>
      in \<lparr>world_after = w1\<lparr>store := st\<rparr>, client_used = client, command_sent = command,
          callbacks_called = calls s, outcome = promise s\<rparr>)"

section \<open>Vocabulary of the properties\<close>

text \<open>The input object of a command.\<close>

definition request_of :: "command \<Rightarrow> request" where
  "request_of c = (case c of UpdateItemCommand r \<Rightarrow> r | GetItemCommand r \<Rightarrow> r)"

text \<open>The \<^verbatim>\<open>dynamodb\<close> option has a member of the given name.\<close>

definition supplied :: "AtomicCounterOptions \<Rightarrow> string \<Rightarrow> bool" where
  "supplied options k = (case dynamodb options of None \<Rightarrow> False | Some d \<Rightarrow> d k \<noteq> None)"

text \<open>The reply of the store to the request of a call.\<close>

definition increment_reply ::
  "'st send \<Rightarrow> string \<Rightarrow> AtomicCounterOptions \<Rightarrow> 'st world \<Rightarrow> reply" where
  "increment_reply send counterId options w =
     (let (client, w1) = getDynamoClient (client options) w
      in fst (send client (UpdateItemCommand (increment_params counterId options)) (store w1)))"

definition getLastValue_reply ::
  "'st send \<Rightarrow> string \<Rightarrow> AtomicCounterOptions \<Rightarrow> 'st world \<Rightarrow> reply" where
  "getLastValue_reply send counterId options w =
     (let (client, w1) = getDynamoClient (client options) w
      in fst (send client (GetItemCommand (getLastValue_params counterId options)) (store w1)))"

text \<open>A callback, if there is one, returns when it is called with \<open>x\<close>.\<close>

definition returns_on :: "callback option \<Rightarrow> js_value \<Rightarrow> bool" where
  "returns_on cb x = (case cb of None \<Rightarrow> True | Some f \<Rightarrow> cb_throws f x = None)"

definition callbacks_return :: "AtomicCounterOptions \<Rightarrow> js_value \<Rightarrow> bool" where
  "callbacks_return options x =
     (returns_on (success options) x \<and> returns_on (error options) x \<and>
      returns_on (complete options) x)"

text \<open>The log entry of calling a callback of the options, if there is one.\<close>

definition called :: "callback option \<Rightarrow> string option \<Rightarrow> js_value \<Rightarrow> event list" where
  "called cb ctx x = (case cb of None \<Rightarrow> [] | Some f \<Rightarrow> [Call (cb_name f) ctx x])"

text \<open>
  The errors this module creates itself: each \<^verbatim>\<open>new Error\<close> of the source reports an
  output of the store that lacks a usable count.
\<close>

definition MalformedResponse :: "js_value \<Rightarrow> bool" where
  "MalformedResponse e = (case e of Error _ \<Rightarrow> True | _ \<Rightarrow> False)"

text \<open>
  An attribute value that holds no number: it is not of type \<^verbatim>\<open>N\<close>, or its \<^verbatim>\<open>N\<close> string
  has no decimal digit.
\<close>

definition not_numeric :: "AttributeValue \<Rightarrow> bool" where
  "not_numeric x = (case x of N s \<Rightarrow> list_all (\<lambda>c. \<not> is_digit c) s | _ \<Rightarrow> True)"

text \<open>
  A plain decimal numeral: an optional minus sign, the digits \<open>ds\<close> of the integer part
  and, unless \<open>fs\<close> is empty, a point and the digits \<open>fs\<close> of the fraction; the number
  it denotes; and a number truncated toward zero.
\<close>

definition decimal :: "bool \<Rightarrow> string \<Rightarrow> string \<Rightarrow> string" where
  "decimal negative ds fs =
     (if negative then ''-'' else []) @ ds @ (if fs = [] then [] else CHR ''.'' # fs)"

definition decimal_value :: "bool \<Rightarrow> string \<Rightarrow> string \<Rightarrow> rat" where
  "decimal_value negative ds fs =
     (if negative then - 1 else 1) *
     (of_nat (numeral_value ds) + of_nat (numeral_value fs) / 10 ^ length fs)"

definition toward_zero :: "rat \<Rightarrow> int" where
  "toward_zero q = (if q < 0 then - \<lfloor>- q\<rfloor> else \<lfloor>q\<rfloor>)"

text \<open>The three states of the promise-like object.\<close>

definition is_pending :: "AtomicCounterPromiseImpl \<Rightarrow> bool" where
  "is_pending p = (\<not> resolved p \<and> \<not> rejected p)"

definition is_resolved :: "AtomicCounterPromiseImpl \<Rightarrow> js_value \<Rightarrow> bool" where
  "is_resolved p x = (resolved p \<and> \<not> rejected p \<and> value_field p = x)"

definition is_rejected :: "AtomicCounterPromiseImpl \<Rightarrow> js_value \<Rightarrow> bool" where
  "is_rejected p x = (rejected p \<and> \<not> resolved p \<and> value_field p = x)"

text \<open>The log entries of calling each observer of a list with \<open>x\<close>, in order.\<close>

definition deliveries :: "callback list \<Rightarrow> js_value \<Rightarrow> event list" where
  "deliveries cbs x = map (\<lambda>cb. Call (cb_name cb) None x) cbs"

text \<open>
  An example of a store, to run the model on concrete inputs; it is not part of the
  module. It holds one counter under the default attribute name: an update adds the
  amount of the request to the counter and replies with the new value, a read replies
  with the value.
\<close>

definition added_amount :: "request \<Rightarrow> int" where
  "added_amount r =
     (case r ''ExpressionAttributeValues'' of
        Some (AttrMap [(_, N a)]) \<Rightarrow> (case parseInt a of Num n \<Rightarrow> n | NaN \<Rightarrow> 0)
      | _ \<Rightarrow> 0)"

definition example_send :: "int send" where
  "example_send c cmd st =
     (case cmd of
        UpdateItemCommand r \<Rightarrow>
          (SendFulfilled
             \<lparr>Attributes = Some [''lastValue'' \<mapsto> N (toString (Num (st + added_amount r)))],
              Item = None\<rparr>,
           st + added_amount r)
      | GetItemCommand r \<Rightarrow>
          (SendFulfilled \<lparr>Attributes = None, Item = Some [''lastValue'' \<mapsto> N (toString (Num st))]\<rparr>,
           st))"

text \<open>A second example: a store that fulfils every request with the given output.\<close>

definition replying :: "command_output \<Rightarrow> unit send" where
  "replying out c cmd st = (SendFulfilled out, st)"

section \<open>Printing and parsing integers\<close>

lemma of_char_digit_char: "d < 10 \<Longrightarrow> (of_char (digit_char d) :: nat) = 48 + d"
  by (simp add: digit_char_def)

lemma is_digit_digit_char: "d < 10 \<Longrightarrow> is_digit (digit_char d)"
  by (simp add: is_digit_def of_char_digit_char)

lemma digit_value_digit_char: "d < 10 \<Longrightarrow> digit_value (digit_char d) = d"
  by (simp add: digit_value_def of_char_digit_char)

lemma digits10_all_digits: "c \<in> set (digits10 n) \<Longrightarrow> is_digit c"
proof (induction n arbitrary: c rule: digits10.induct)
  case (1 n)
  show ?case
  proof (cases "n < 10")
    case True
    with "1.prems" show ?thesis
      by (simp add: digits10.simps [of n] is_digit_digit_char)
  next
    case False
    with "1.prems" "1.IH" show ?thesis
      by (auto simp: digits10.simps [of n] is_digit_digit_char)
  qed
qed

lemma digits10_not_Nil: "digits10 n \<noteq> []"
  by (subst digits10.simps) simp

lemma numeral_value_snoc: "numeral_value (z @ [c]) = 10 * numeral_value z + digit_value c"
  by (simp add: numeral_value_def)

lemma numeral_value_digits10: "numeral_value (digits10 n) = n"
proof (induction n rule: digits10.induct)
  case (1 n)
  show ?case
  proof (cases "n < 10")
    case True
    then show ?thesis
      by (simp add: digits10.simps [of n] numeral_value_def digit_value_digit_char)
  next
    case False
    with "1.IH" show ?thesis
      by (simp add: digits10.simps [of n] numeral_value_snoc digit_value_digit_char)
  qed
qed

lemma parse_unsigned_digits:
  assumes "z \<noteq> []" and "\<And>c. c \<in> set z \<Longrightarrow> is_digit c"
  shows "parse_unsigned z = Num (int (numeral_value z))"
proof -
  have prefix: "takeWhile is_digit z = z"
    using assms(2) by (simp add: takeWhile_eq_all_conv)
  show ?thesis
    unfolding parse_unsigned_def prefix using assms(1) by simp
qed

lemma parse_unsigned_digits10: "parse_unsigned (digits10 n) = Num (int n)"
  using parse_unsigned_digits [of "digits10 n"]
  by (simp add: digits10_not_Nil digits10_all_digits numeral_value_digits10)

lemma digit_not_space: "is_digit c \<Longrightarrow> \<not> is_StrWhiteSpaceChar c"
  by (auto simp: is_digit_def is_StrWhiteSpaceChar_def)

lemma digit_not_sign: "is_digit c \<Longrightarrow> c \<noteq> CHR ''-'' \<and> c \<noteq> CHR ''+''"
  by (auto simp: is_digit_def)

lemma parseInt_digits10: "parseInt (digits10 n) = Num (int n)"
proof (cases "digits10 n")
  case Nil
  then show ?thesis by (simp add: digits10_not_Nil)
next
  case (Cons c cs)
  then have "c \<in> set (digits10 n)" by simp
  then have c: "is_digit c" by (rule digits10_all_digits)
  have "parseInt (c # cs) = parse_unsigned (c # cs)"
    using digit_not_space [OF c] digit_not_sign [OF c] by (simp add: parseInt_def)
  then show ?thesis
    using parse_unsigned_digits10 [of n] by (simp add: Cons)
qed

lemma parseInt_minus_digits10: "parseInt (CHR ''-'' # digits10 n) = Num (- int n)"
  by (simp add: parseInt_def is_StrWhiteSpaceChar_def parse_unsigned_digits10 negate_def)

lemma parseInt_toString: "parseInt (toString (Num n)) = Num n"
  by (simp add: toString_def parseInt_digits10 parseInt_minus_digits10)

lemma parse_unsigned_no_digit: "list_all (\<lambda>c. \<not> is_digit c) s \<Longrightarrow> parse_unsigned s = NaN"
  by (cases s) (simp_all add: parse_unsigned_def)

lemma parseInt_no_digit:
  assumes "list_all (\<lambda>c. \<not> is_digit c) s"
  shows "parseInt s = NaN"
proof (cases "dropWhile is_StrWhiteSpaceChar s")
  case Nil
  show ?thesis
    unfolding parseInt_def Nil by simp
next
  case (Cons c cs)
  have "set (c # cs) \<subseteq> set s"
    using set_dropWhileD [of _ is_StrWhiteSpaceChar s] Cons by auto
  with assms have "list_all (\<lambda>c. \<not> is_digit c) (c # cs)"
    by (auto simp: list_all_iff)
  then have "parse_unsigned cs = NaN" and "parse_unsigned (c # cs) = NaN"
    by (simp_all add: parse_unsigned_no_digit)
  then show ?thesis
    unfolding parseInt_def Cons by (simp add: negate_def)
qed

text \<open>Decimal numerals: \<^verbatim>\<open>parseInt\<close> reads the integer part, the value truncated toward zero.\<close>

lemma parse_unsigned_prefix:
  assumes "ds \<noteq> []" and "list_all is_digit ds" and "rest = [] \<or> \<not> is_digit (hd rest)"
  shows "parse_unsigned (ds @ rest) = Num (int (numeral_value ds))"
proof -
  have stop: "takeWhile is_digit rest = []"
    using assms(3) by (cases rest) auto
  have "takeWhile is_digit (ds @ rest) = ds @ takeWhile is_digit rest"
    using assms(2) by (simp add: takeWhile_append2 list_all_iff)
  then have prefix: "takeWhile is_digit (ds @ rest) = ds"
    by (simp add: stop)
  show ?thesis
    unfolding parse_unsigned_def prefix using assms(1) by simp
qed

lemma point_not_digit: "\<not> is_digit CHR ''.''"
  by (simp add: is_digit_def)

lemma parseInt_decimal:
  assumes "ds \<noteq> []" and "list_all is_digit ds"
  shows "parseInt (decimal negative ds fs) =
     Num (if negative then - int (numeral_value ds) else int (numeral_value ds))"
proof -
  let ?rest = "if fs = [] then [] else CHR ''.'' # fs"
  have rest: "?rest = [] \<or> \<not> is_digit (hd ?rest)"
    by (simp add: point_not_digit)
  have body: "parse_unsigned (ds @ ?rest) = Num (int (numeral_value ds))"
    using assms rest by (rule parse_unsigned_prefix)
  obtain c cs where ds: "ds = c # cs"
    using assms(1) by (cases ds) auto
  have c: "is_digit c"
    using assms(2) ds by simp
  show ?thesis
  proof (cases negative)
    case True
    have "parseInt (CHR ''-'' # ds @ ?rest) = negate (parse_unsigned (ds @ ?rest))"
      by (simp add: parseInt_def is_StrWhiteSpaceChar_def)
    then show ?thesis
      using True body by (simp add: decimal_def negate_def)
  next
    case False
    have "parseInt (c # cs @ ?rest) = parse_unsigned (c # cs @ ?rest)"
      using digit_not_space [OF c] digit_not_sign [OF c] by (simp add: parseInt_def)
    then show ?thesis
      using False body ds by (simp add: decimal_def)
  qed
qed

lemma digit_value_le: "is_digit c \<Longrightarrow> digit_value c \<le> 9"
  unfolding is_digit_def digit_value_def by linarith

lemma numeral_value_less: "list_all is_digit fs \<Longrightarrow> numeral_value fs < 10 ^ length fs"
proof (induction fs rule: rev_induct)
  case Nil
  show ?case by (simp add: numeral_value_def)
next
  case (snoc c fs)
  then have "numeral_value fs < 10 ^ length fs" and "digit_value c \<le> 9"
    by (simp_all add: digit_value_le)
  then show ?case
    by (simp add: numeral_value_snoc)
qed

lemma floor_with_fraction:
  fixes a b k :: nat
  assumes "b < 10 ^ k"
  shows "\<lfloor>(of_nat a :: rat) + of_nat b / 10 ^ k\<rfloor> = int a"
proof (rule floor_unique)
  show "of_int (int a) \<le> (of_nat a :: rat) + of_nat b / 10 ^ k"
    by simp
  have "(of_nat b :: rat) < 10 ^ k"
    using assms by (metis of_nat_less_iff of_nat_numeral of_nat_power)
  then have "(of_nat b :: rat) / 10 ^ k < 1"
    by simp
  then show "(of_nat a :: rat) + of_nat b / 10 ^ k < of_int (int a) + 1"
    by simp
qed

lemma toward_zero_nonneg: "0 \<le> q \<Longrightarrow> toward_zero q = \<lfloor>q\<rfloor>"
  by (simp add: toward_zero_def)

lemma toward_zero_minus: "0 \<le> q \<Longrightarrow> toward_zero (- q) = - \<lfloor>q\<rfloor>"
  by (cases "q = 0") (simp_all add: toward_zero_def)

lemma decimal_value_sign:
  "decimal_value negative ds fs =
     (if negative
      then - (of_nat (numeral_value ds) + of_nat (numeral_value fs) / 10 ^ length fs)
      else of_nat (numeral_value ds) + of_nat (numeral_value fs) / 10 ^ length fs)"
  by (simp add: decimal_value_def)

lemma toward_zero_decimal:
  assumes "list_all is_digit fs"
  shows "toward_zero (decimal_value negative ds fs) =
     (if negative then - int (numeral_value ds) else int (numeral_value ds))"
proof -
  define q where "q = (of_nat (numeral_value ds) :: rat) + of_nat (numeral_value fs) / 10 ^ length fs"
  have fl: "\<lfloor>q\<rfloor> = int (numeral_value ds)"
    unfolding q_def using numeral_value_less [OF assms] by (rule floor_with_fraction)
  have nonneg: "0 \<le> q"
    unfolding q_def by simp
  have "decimal_value negative ds fs = (if negative then - q else q)"
    unfolding q_def by (rule decimal_value_sign)
  then show ?thesis
    using fl toward_zero_nonneg [OF nonneg] toward_zero_minus [OF nonneg] by simp
qed

lemma toString_decimal:
  "toString (Num n) = decimal (n < 0) (digits10 (nat \<bar>n\<bar>)) []"
  by (simp add: toString_def decimal_def)

lemma digits10_list_all: "list_all is_digit (digits10 n)"
  by (simp add: list_all_iff digits10_all_digits)

section \<open>The request of a call\<close>

lemma spread_apply:
  "spread derived extra k =
     (case extra of None \<Rightarrow> derived k
      | Some d \<Rightarrow> (case d k of None \<Rightarrow> derived k | Some v \<Rightarrow> Some v))"
  by (simp add: spread_def map_add_def split: option.splits)

lemma command_sent_increment:
  "command_sent (increment send counterId options w) =
     UpdateItemCommand (increment_params counterId options)"
  by (simp add: increment_def Let_def split: prod.splits)

lemma command_sent_getLastValue:
  "command_sent (getLastValue send counterId options w) =
     GetItemCommand (getLastValue_params counterId options)"
  by (simp add: getLastValue_def Let_def split: prod.splits)

lemma client_used_increment:
  "client_used (increment send counterId options w) = fst (getDynamoClient (client options) w)"
  by (simp add: increment_def Let_def split: prod.splits)

lemma client_used_getLastValue:
  "client_used (getLastValue send counterId options w) = fst (getDynamoClient (client options) w)"
  by (simp add: getLastValue_def Let_def split: prod.splits)

lemma store_getDynamoClient: "store (snd (getDynamoClient c w)) = store w"
  by (simp add: getDynamoClient_def split: option.splits)

lemma store_after_increment:
  "store (world_after (increment send counterId options w)) =
     snd (send (client_used (increment send counterId options w))
            (command_sent (increment send counterId options w)) (store w))"
proof -
  obtain c w1 where g: "getDynamoClient (client options) w = (c, w1)"
    by (cases "getDynamoClient (client options) w")
  have same: "store w1 = store w"
    using store_getDynamoClient [of "client options" w] g by simp
  obtain r st where t: "send c (UpdateItemCommand (increment_params counterId options)) (store w) = (r, st)"
    by (cases "send c (UpdateItemCommand (increment_params counterId options)) (store w)")
  show ?thesis
    by (simp add: increment_def g same t split: prod.splits)
qed

lemma store_after_getLastValue:
  "store (world_after (getLastValue send counterId options w)) =
     snd (send (client_used (getLastValue send counterId options w))
            (command_sent (getLastValue send counterId options w)) (store w))"
proof -
  obtain c w1 where g: "getDynamoClient (client options) w = (c, w1)"
    by (cases "getDynamoClient (client options) w")
  have same: "store w1 = store w"
    using store_getDynamoClient [of "client options" w] g by simp
  obtain r st where t: "send c (GetItemCommand (getLastValue_params counterId options)) (store w) = (r, st)"
    by (cases "send c (GetItemCommand (getLastValue_params counterId options)) (store w)")
  show ?thesis
    by (simp add: getLastValue_def g same t split: prod.splits)
qed

lemma spread_unsupplied:
  "\<not> supplied options k \<Longrightarrow> spread derived (dynamodb options) k = derived k"
  by (simp add: spread_apply supplied_def split: option.splits)

lemma spread_supplied: "d k = Some v \<Longrightarrow> spread derived (Some d) k = Some v"
  by (simp add: spread_apply)

lemma spread_kept: "d k = None \<Longrightarrow> spread derived (Some d) k = derived k"
  by (simp add: spread_apply)

lemma request_increment_unsupplied:
  "\<not> supplied options k \<Longrightarrow>
   request_of (command_sent (increment send counterId options w)) k =
     increment_derived counterId options k"
  by (simp add: command_sent_increment request_of_def increment_params_def spread_unsupplied)

lemma request_getLastValue_unsupplied:
  "\<not> supplied options k \<Longrightarrow>
   request_of (command_sent (getLastValue send counterId options w)) k =
     getLastValue_derived counterId options k"
  by (simp add: command_sent_getLastValue request_of_def getLastValue_params_def spread_unsupplied)

lemma toString_1: "toString (Num 1) = ''1''"
  by code_simp

lemma toString_0: "toString (Num 0) = ''0''"
  by code_simp

lemma example_send_read: "snd (example_send c (GetItemCommand r) st) = st"
  by (simp add: example_send_def)

text \<open>
  The example of the documentation on the example store: two increments give 1 and 2,
  the last value is then 2, and an increment by -1 gives 1.
\<close>

lemma example_scenario:
  "(let r1 = increment example_send ''Users'' no_options \<lparr>dynamoClient = None, store = 0\<rparr>;
        r2 = increment example_send ''Users'' no_options (world_after r1);
        r3 = getLastValue example_send ''Users'' no_options (world_after r2);
        r4 = increment example_send ''Users'' (no_options\<lparr>increment_amount := Some (Exact (Num (- 1)))\<rparr>)
               (world_after r3)
    in outcome r1 = Resolved 1 \<and> outcome r2 = Resolved 2 \<and> outcome r3 = Resolved 2 \<and>
       outcome r4 = Resolved 1 \<and> store (world_after r4) = 1)"
  by code_simp

section \<open>Callbacks that return\<close>

text \<open>
  When every callback of the options returns, a call reports its result once: the value
  to \<open>success\<close> and \<open>complete\<close>, or the error to \<open>error\<close> and \<open>complete\<close>.
\<close>

lemma executeCallback_returning:
  "returns_on cb x \<Longrightarrow> executeCallback cb ctx x s = (None, s\<lparr>calls := calls s @ called cb ctx x\<rparr>)"
  by (cases cb; cases ctx) (simp_all add: executeCallback_def returns_on_def called_def)

lemma report_value_returning:
  assumes "callbacks_return options (Number v)"
  shows "report_value options v \<lparr>calls = cs, promise = Pending\<rparr> =
     (None, \<lparr>calls = cs @ called (success options) (callback_context options) (Number v)
                       @ called (complete options) (callback_context options) (Number v),
             promise = Resolved v\<rparr>)"
  using assms
  by (simp add: report_value_def seq_def callbacks_return_def executeCallback_returning resolve_def)

lemma report_error_returning:
  assumes "callbacks_return options e"
  shows "report_error options e \<lparr>calls = cs, promise = Pending\<rparr> =
     (None, \<lparr>calls = cs @ called (error options) (callback_context options) e
                       @ called (complete options) (callback_context options) e,
             promise = Rejected e\<rparr>)"
  using assms
  by (simp add: report_error_def seq_def callbacks_return_def executeCallback_returning reject_def)

lemma reply_handled_returning:
  assumes "\<And>x. callbacks_return options x"
    and "\<And>data. h data = try_catch (case count data of Inl e \<Rightarrow> throw e | Inr v \<Rightarrow> report_value options v)
                              (report_error options)"
  shows "on_reply options h r \<lparr>calls = [], promise = Pending\<rparr> =
     (None,
      case (case r of SendFulfilled data \<Rightarrow> count data | SendRejected e \<Rightarrow> Inl e) of
        Inr v \<Rightarrow>
          \<lparr>calls = called (success options) (callback_context options) (Number v)
                    @ called (complete options) (callback_context options) (Number v),
           promise = Resolved v\<rparr>
      | Inl e \<Rightarrow>
          \<lparr>calls = called (error options) (callback_context options) e
                    @ called (complete options) (callback_context options) e,
           promise = Rejected e\<rparr>)"
proof (cases r)
  case (SendRejected e)
  then show ?thesis
    by (simp add: on_reply_def report_error_returning assms(1))
next
  case (SendFulfilled data)
  show ?thesis
  proof (cases "count data")
    case (Inl e)
    then show ?thesis
      by (simp add: SendFulfilled on_reply_def assms(2) try_catch_def throw_def
          report_error_returning assms(1))
  next
    case (Inr v)
    then show ?thesis
      by (simp add: SendFulfilled on_reply_def assms(2) try_catch_def
          report_value_returning assms(1))
  qed
qed

lemma increment_finished:
  "callbacks_called (increment send counterId options w) =
     calls (snd (on_reply options
       (increment_then options (or_string (countAttribute options) DEFAULT_COUNT_ATTRIBUTE))
       (increment_reply send counterId options w) \<lparr>calls = [], promise = Pending\<rparr>)) \<and>
   outcome (increment send counterId options w) =
     promise (snd (on_reply options
       (increment_then options (or_string (countAttribute options) DEFAULT_COUNT_ATTRIBUTE))
       (increment_reply send counterId options w) \<lparr>calls = [], promise = Pending\<rparr>))"
  by (simp add: increment_def increment_reply_def Let_def split: prod.splits)

lemma getLastValue_finished:
  "callbacks_called (getLastValue send counterId options w) =
     calls (snd (on_reply options
       (getLastValue_then options (or_string (countAttribute options) DEFAULT_COUNT_ATTRIBUTE))
       (getLastValue_reply send counterId options w) \<lparr>calls = [], promise = Pending\<rparr>)) \<and>
   outcome (getLastValue send counterId options w) =
     promise (snd (on_reply options
       (getLastValue_then options (or_string (countAttribute options) DEFAULT_COUNT_ATTRIBUTE))
       (getLastValue_reply send counterId options w) \<lparr>calls = [], promise = Pending\<rparr>))"
  by (simp add: getLastValue_def getLastValue_reply_def Let_def split: prod.splits)

lemma increment_outcome_returning:
  assumes "\<And>x. callbacks_return options x"
    and "increment_reply send counterId options w = SendFulfilled data"
  shows "outcome (increment send counterId options w) =
     (case increment_count (or_string (countAttribute options) DEFAULT_COUNT_ATTRIBUTE) data of
        Inr v \<Rightarrow> Resolved v | Inl e \<Rightarrow> Rejected e)"
  using reply_handled_returning [of options
      "increment_then options (or_string (countAttribute options) DEFAULT_COUNT_ATTRIBUTE)"
      "increment_count (or_string (countAttribute options) DEFAULT_COUNT_ATTRIBUTE)"
      "SendFulfilled data"] assms
  by (simp add: increment_finished increment_then_def split: sum.splits)

lemma getLastValue_outcome_returning:
  assumes "\<And>x. callbacks_return options x"
    and "getLastValue_reply send counterId options w = SendFulfilled data"
  shows "outcome (getLastValue send counterId options w) =
     (case getLastValue_count (or_string (countAttribute options) DEFAULT_COUNT_ATTRIBUTE) data of
        Inr v \<Rightarrow> Resolved v | Inl e \<Rightarrow> Rejected e)"
  using reply_handled_returning [of options
      "getLastValue_then options (or_string (countAttribute options) DEFAULT_COUNT_ATTRIBUTE)"
      "getLastValue_count (or_string (countAttribute options) DEFAULT_COUNT_ATTRIBUTE)"
      "SendFulfilled data"] assms
  by (simp add: getLastValue_finished getLastValue_then_def split: sum.splits)

lemma not_numeric_cases:
  assumes "not_numeric x"
  shows "not_N x \<or> parseInt (the_N x) = NaN"
proof (cases x)
  case (N s)
  with assms have "parseInt s = NaN"
    by (simp add: not_numeric_def parseInt_no_digit)
  with N show ?thesis by (simp add: the_N_def)
qed (simp_all add: not_N_def)

lemma toString_not_Nil: "toString (Num n) \<noteq> []"
  by (simp add: toString_def digits10_not_Nil)

lemma get_member_own: "obj name = Some v \<Longrightarrow> get_member obj name = Own v"
  by (simp add: get_member_def)

lemma get_member_none:
  "obj name = None \<Longrightarrow> get_member obj name = Inherited \<or> get_member obj name = Missing"
  by (simp add: get_member_def)

lemma get_member_missing:
  "obj name = None \<Longrightarrow> name \<notin> set Object_prototype_names \<Longrightarrow> get_member obj name = Missing"
  by (simp add: get_member_def)

lemma increment_count_parsed:
  assumes "Attributes data = Some attrs" and "attrs a = Some (N s)" and "parseInt s = Num n"
  shows "increment_count a data = Inr n"
proof -
  have "s \<noteq> []"
    using assms(3) by (auto simp: parseInt_def)
  then show ?thesis
    using assms by (simp add: increment_count_def get_member_own not_N_def the_N_def)
qed

lemma increment_count_absent:
  assumes "Attributes data = None \<or> (\<exists>attrs. Attributes data = Some attrs \<and> attrs a = None)"
  shows "\<exists>m. increment_count a data = Inl (Error m)"
proof (cases "Attributes data")
  case None
  then show ?thesis by (simp add: increment_count_def)
next
  case (Some attrs)
  with assms have "attrs a = None" by simp
  then show ?thesis
    using Some get_member_none [of attrs a] by (auto simp: increment_count_def)
qed

lemma increment_count_not_numeric:
  assumes "Attributes data = Some attrs" and "attrs a = Some x" and "not_numeric x"
  shows "\<exists>m. increment_count a data = Inl (Error m)"
  using assms not_numeric_cases [OF assms(3)]
  by (auto simp: increment_count_def get_member_own)

lemma getLastValue_count_parsed:
  assumes "Item data = Some item" and "item a = Some (N s)" and "parseInt s = Num n"
  shows "getLastValue_count a data = Inr n"
proof -
  have "s \<noteq> []"
    using assms(3) by (auto simp: parseInt_def)
  then show ?thesis
    using assms by (simp add: getLastValue_count_def get_member_own not_N_def the_N_def)
qed

lemma getLastValue_count_absent:
  assumes "Item data = None \<or> (\<exists>item. Item data = Some item \<and> item a = None)"
    and "a \<notin> set Object_prototype_names"
  shows "getLastValue_count a data = Inr 0"
proof (cases "Item data")
  case None
  then show ?thesis by (simp add: getLastValue_count_def)
next
  case (Some item)
  with assms(1) have "item a = None" by simp
  then show ?thesis
    using Some assms(2) by (simp add: getLastValue_count_def get_member_missing)
qed

lemma getLastValue_count_not_numeric:
  assumes "Item data = Some item" and "item a = Some x" and "not_numeric x"
  shows "\<exists>m. getLastValue_count a data = Inl (Error m)"
  using assms not_numeric_cases [OF assms(3)]
  by (auto simp: getLastValue_count_def get_member_own)

lemma increment_callbacks_returning:
  assumes "\<And>x. callbacks_return options x"
  shows "callbacks_called (increment send counterId options w) =
     (case (case increment_reply send counterId options w of
              SendFulfilled data \<Rightarrow>
                increment_count (or_string (countAttribute options) DEFAULT_COUNT_ATTRIBUTE) data
            | SendRejected e \<Rightarrow> Inl e) of
        Inr v \<Rightarrow>
          called (success options) (callback_context options) (Number v)
            @ called (complete options) (callback_context options) (Number v)
      | Inl e \<Rightarrow>
          called (error options) (callback_context options) e
            @ called (complete options) (callback_context options) e)"
  using reply_handled_returning [of options
      "increment_then options (or_string (countAttribute options) DEFAULT_COUNT_ATTRIBUTE)"
      "increment_count (or_string (countAttribute options) DEFAULT_COUNT_ATTRIBUTE)"
      "increment_reply send counterId options w"] assms
  by (simp add: increment_finished increment_then_def split: sum.splits)

lemma getLastValue_callbacks_returning:
  assumes "\<And>x. callbacks_return options x"
  shows "callbacks_called (getLastValue send counterId options w) =
     (case (case getLastValue_reply send counterId options w of
              SendFulfilled data \<Rightarrow>
                getLastValue_count (or_string (countAttribute options) DEFAULT_COUNT_ATTRIBUTE) data
            | SendRejected e \<Rightarrow> Inl e) of
        Inr v \<Rightarrow>
          called (success options) (callback_context options) (Number v)
            @ called (complete options) (callback_context options) (Number v)
      | Inl e \<Rightarrow>
          called (error options) (callback_context options) e
            @ called (complete options) (callback_context options) e)"
  using reply_handled_returning [of options
      "getLastValue_then options (or_string (countAttribute options) DEFAULT_COUNT_ATTRIBUTE)"
      "getLastValue_count (or_string (countAttribute options) DEFAULT_COUNT_ATTRIBUTE)"
      "getLastValue_reply send counterId options w"] assms
  by (simp add: getLastValue_finished getLastValue_then_def split: sum.splits)

lemma no_callbacks_return: "callbacks_return no_options x"
  by (simp add: callbacks_return_def returns_on_def no_options_def)

lemma default_count_attribute:
  "or_string (countAttribute no_options) DEFAULT_COUNT_ATTRIBUTE = ''lastValue''"
  by (simp add: or_string_def no_options_def DEFAULT_COUNT_ATTRIBUTE_def)

lemma max_safe_1: "\<bar>1\<bar> \<le> MAX_SAFE_INTEGER" "\<bar>2\<bar> \<le> MAX_SAFE_INTEGER" "\<bar>- 1\<bar> \<le> MAX_SAFE_INTEGER"
  by (simp_all add: MAX_SAFE_INTEGER_def)

lemma increment_count_decimal:
  assumes "Attributes data = Some attrs" and "attrs a = Some (N (decimal negative ds fs))"
    and "ds \<noteq> []" and "list_all is_digit ds" and "list_all is_digit fs"
  shows "increment_count a data = Inr (toward_zero (decimal_value negative ds fs))"
  using assms(1,2) parseInt_decimal [OF assms(3,4), of negative fs]
  by (simp add: increment_count_parsed toward_zero_decimal [OF assms(5)])

lemma getLastValue_count_decimal:
  assumes "Item data = Some item" and "item a = Some (N (decimal negative ds fs))"
    and "ds \<noteq> []" and "list_all is_digit ds" and "list_all is_digit fs"
  shows "getLastValue_count a data = Inr (toward_zero (decimal_value negative ds fs))"
  using assms(1,2) parseInt_decimal [OF assms(3,4), of negative fs]
  by (simp add: getLastValue_count_parsed toward_zero_decimal [OF assms(5)])

lemma replying_increment_reply:
  "increment_reply (replying out) counterId options w = SendFulfilled out"
  by (simp add: increment_reply_def replying_def split: prod.splits)

lemma replying_getLastValue_reply:
  "getLastValue_reply (replying out) counterId options w = SendFulfilled out"
  by (simp add: getLastValue_reply_def replying_def split: prod.splits)

lemma example_numeral:
  "decimal False ''12'' ''75'' = ''12.75''"
  "''12'' \<noteq> []" "list_all is_digit ''12''" "list_all is_digit ''75''"
  "int (numeral_value ''12'') \<le> MAX_SAFE_INTEGER"
  "toward_zero (decimal_value False ''12'' ''75'') = 12"
proof -
  show d: "list_all is_digit ''75''"
    by (simp add: is_digit_def)
  show "toward_zero (decimal_value False ''12'' ''75'') = 12"
    by (simp add: toward_zero_decimal [OF d] numeral_value_def digit_value_def)
qed (simp_all add: decimal_def is_digit_def numeral_value_def digit_value_def MAX_SAFE_INTEGER_def)

lemma default_not_inherited: "''lastValue'' \<notin> set Object_prototype_names"
  by (simp add: Object_prototype_names_def)

section \<open>Observers that return\<close>

text \<open>
  When every queued observer returns, settling the object calls the observers of the
  matching list and then those of \<open>alwaysCallbacks\<close>, each once and in the order of
  registration, and sets one of the two flags.
\<close>

lemma invoke_apply:
  "invoke cb x p = (cb_throws cb x, p\<lparr>invoked := invoked p @ [Call (cb_name cb) None x]\<rparr>)"
  by (simp add: invoke_def)

lemma forEach_returning:
  assumes "\<And>cb. cb \<in> set cbs \<Longrightarrow> cb_throws cb x = None"
  shows "forEach cbs x p = (None, p\<lparr>invoked := invoked p @ deliveries cbs x\<rparr>)"
  using assms
proof (induction cbs arbitrary: p)
  case Nil
  show ?case by (simp add: deliveries_def)
next
  case (Cons cb cbs)
  have "cb_throws cb x = None"
    using Cons.prems by simp
  moreover have "forEach cbs x q = (None, q\<lparr>invoked := invoked q @ deliveries cbs x\<rparr>)" for q
    using Cons.IH Cons.prems by simp
  ultimately show ?case
    by (simp add: invoke_def deliveries_def)
qed

lemma settle_resolved_returning:
  assumes "\<And>cb. cb \<in> set (doneCallbacks p) \<union> set (alwaysCallbacks p) \<Longrightarrow>
             cb_throws cb (Number v) = None"
  shows "settle (Resolved v) p =
     (None, p\<lparr>resolved := True, value_field := Number v,
              invoked := invoked p @ deliveries (doneCallbacks p) (Number v)
                                   @ deliveries (alwaysCallbacks p) (Number v)\<rparr>)"
  using assms
  by (simp add: settle_def try_catch_def on_fulfilled_def seq_def Let_def forEach_returning)

lemma settle_rejected_returning:
  assumes "\<And>cb. cb \<in> set (failCallbacks p) \<union> set (alwaysCallbacks p) \<Longrightarrow>
             cb_throws cb e = None"
  shows "settle (Rejected e) p =
     (None, p\<lparr>rejected := True, value_field := e,
              invoked := invoked p @ deliveries (failCallbacks p) e
                                   @ deliveries (alwaysCallbacks p) e\<rparr>)"
  using assms
  by (simp add: settle_def on_rejected_def seq_def Let_def forEach_returning)

lemma new_is_pending: "is_pending new_AtomicCounterPromiseImpl"
  by (simp add: is_pending_def new_AtomicCounterPromiseImpl_def)

lemma pending_registration:
  assumes "is_pending p"
  shows "done_method cb p = (None, p\<lparr>doneCallbacks := doneCallbacks p @ [cb]\<rparr>)"
    and "fail_method cb p = (None, p\<lparr>failCallbacks := failCallbacks p @ [cb]\<rparr>)"
    and "always_method cb p = (None, p\<lparr>alwaysCallbacks := alwaysCallbacks p @ [cb]\<rparr>)"
  using assms by (simp_all add: is_pending_def done_method_def fail_method_def always_method_def)

lemma resolved_state_returning:
  assumes "is_pending p"
    and "\<And>cb. cb \<in> set (doneCallbacks p) \<union> set (alwaysCallbacks p) \<Longrightarrow>
           cb_throws cb (Number v) = None"
  shows "is_resolved (snd (settle (Resolved v) p)) (Number v)"
proof -
  have "settle (Resolved v) p =
      (None, p\<lparr>resolved := True, value_field := Number v,
               invoked := invoked p @ deliveries (doneCallbacks p) (Number v)
                                    @ deliveries (alwaysCallbacks p) (Number v)\<rparr>)"
    by (rule settle_resolved_returning) (rule assms(2))
  then show ?thesis
    using assms(1) by (simp add: is_pending_def is_resolved_def)
qed

lemma rejected_state_returning:
  assumes "is_pending p"
    and "\<And>cb. cb \<in> set (failCallbacks p) \<union> set (alwaysCallbacks p) \<Longrightarrow>
           cb_throws cb e = None"
  shows "is_rejected (snd (settle (Rejected e) p)) e"
proof -
  have "settle (Rejected e) p =
      (None, p\<lparr>rejected := True, value_field := e,
               invoked := invoked p @ deliveries (failCallbacks p) e
                                    @ deliveries (alwaysCallbacks p) e\<rparr>)"
    by (rule settle_rejected_returning) (rule assms(2))
  then show ?thesis
    using assms(1) by (simp add: is_pending_def is_rejected_def)
qed

section \<open>Properties of the response handling\<close>

text \<open>
  C1, as the claim states it, fails for a number with a fraction: the store holds 1.5,
  \<^verbatim>\<open>parseInt\<close> (line 196) reads 1, and \<open>increment\<close> resolves with 1.
\<close>

theorem increment_fraction_counterexample:
  "outcome (increment (replying \<lparr>Attributes = Some [''lastValue'' \<mapsto> N ''1.5''], Item = None\<rparr>)
      ''Users'' no_options \<lparr>dynamoClient = None, store = ()\<rparr>) = Resolved 1 \<and>
   decimal False ''1'' ''5'' = ''1.5'' \<and>
   decimal_value False ''1'' ''5'' = 3 / 2 \<and>
   rat_of_int 1 \<noteq> 3 / 2"
proof -
  have "outcome (increment (replying \<lparr>Attributes = Some [''lastValue'' \<mapsto> N ''1.5''], Item = None\<rparr>)
      ''Users'' no_options \<lparr>dynamoClient = None, store = ()\<rparr>) = Resolved 1"
    by code_simp
  moreover have "decimal False ''1'' ''5'' = ''1.5''"
    by (simp add: decimal_def)
  moreover have "decimal_value False ''1'' ''5'' = 3 / 2"
    by (simp add: decimal_value_def numeral_value_def digit_value_def)
  ultimately show ?thesis
    by simp
qed

text \<open>
  C1, amended. \<open>increment\<close>, when the store fulfils the request and the callbacks of the
  options return: if the output holds the count attribute as an \<^verbatim>\<open>N\<close> string that is a
  plain decimal numeral with an integer part of at most \<open>2^53 - 1\<close>, the call resolves
  with that number truncated toward zero, which is the number itself when it is an
  integer; if the output has no attributes, has no count attribute of its own, or holds
  there a value that is not of type \<^verbatim>\<open>N\<close> or whose \<^verbatim>\<open>N\<close> string has no digit, the call is
  rejected with an error of this module.
\<close>

theorem increment_response_checked:
  assumes "increment_reply send counterId options w = SendFulfilled data"
    and "\<forall>x. callbacks_return options x"
  shows "(\<forall>attrs negative ds fs.
            Attributes data = Some attrs \<and>
            attrs (or_string (countAttribute options) DEFAULT_COUNT_ATTRIBUTE) =
              Some (N (decimal negative ds fs)) \<and>
            ds \<noteq> [] \<and> list_all is_digit ds \<and> list_all is_digit fs \<and>
            int (numeral_value ds) \<le> MAX_SAFE_INTEGER \<longrightarrow>
            outcome (increment send counterId options w) =
              Resolved (toward_zero (decimal_value negative ds fs))) \<and>
         (\<forall>attrs n.
            Attributes data = Some attrs \<and>
            attrs (or_string (countAttribute options) DEFAULT_COUNT_ATTRIBUTE) =
              Some (N (toString (Num n))) \<and>
            \<bar>n\<bar> \<le> MAX_SAFE_INTEGER \<longrightarrow>
            outcome (increment send counterId options w) = Resolved n) \<and>
         (Attributes data = None \<or>
          (\<exists>attrs. Attributes data = Some attrs \<and>
             (attrs (or_string (countAttribute options) DEFAULT_COUNT_ATTRIBUTE) = None \<or>
              (\<exists>x. attrs (or_string (countAttribute options) DEFAULT_COUNT_ATTRIBUTE) = Some x \<and>
                   not_numeric x))) \<longrightarrow>
          (\<exists>e. outcome (increment send counterId options w) = Rejected e \<and> MalformedResponse e))"
proof -
  let ?a = "or_string (countAttribute options) DEFAULT_COUNT_ATTRIBUTE"
  have out: "outcome (increment send counterId options w) =
      (case increment_count ?a data of Inr v \<Rightarrow> Resolved v | Inl e \<Rightarrow> Rejected e)"
    using assms by (simp add: increment_outcome_returning)
  have numeral: "outcome (increment send counterId options w) =
      Resolved (toward_zero (decimal_value negative ds fs))"
    if "Attributes data = Some attrs" and "attrs ?a = Some (N (decimal negative ds fs))"
      and "ds \<noteq> []" and "list_all is_digit ds" and "list_all is_digit fs"
    for attrs negative ds fs
    using increment_count_decimal [OF that] by (simp add: out)
  have whole: "outcome (increment send counterId options w) = Resolved n"
    if "Attributes data = Some attrs" and "attrs ?a = Some (N (toString (Num n)))" for attrs n
    using that by (simp add: out increment_count_parsed parseInt_toString)
  have absent: "\<exists>e. outcome (increment send counterId options w) = Rejected e \<and> MalformedResponse e"
    if "Attributes data = None \<or> (\<exists>attrs. Attributes data = Some attrs \<and> attrs ?a = None)"
    using increment_count_absent [OF that] by (auto simp: out MalformedResponse_def)
  have other: "\<exists>e. outcome (increment send counterId options w) = Rejected e \<and> MalformedResponse e"
    if "Attributes data = Some attrs" and "attrs ?a = Some x" and "not_numeric x" for attrs x
    using increment_count_not_numeric [OF that] by (auto simp: out MalformedResponse_def)
  show ?thesis
    using numeral whole absent other by blast
qed

theorem increment_response_checked_witness:
  "increment_reply (replying \<lparr>Attributes = Some [''lastValue'' \<mapsto> N ''12.75''], Item = None\<rparr>)
      ''Users'' no_options \<lparr>dynamoClient = None, store = ()\<rparr> =
     SendFulfilled \<lparr>Attributes = Some [''lastValue'' \<mapsto> N ''12.75''], Item = None\<rparr> \<and>
   (\<forall>x. callbacks_return no_options x) \<and>
   decimal False ''12'' ''75'' = ''12.75'' \<and> ''12'' \<noteq> [] \<and> list_all is_digit ''12'' \<and>
   list_all is_digit ''75'' \<and> int (numeral_value ''12'') \<le> MAX_SAFE_INTEGER \<and>
   outcome (increment (replying \<lparr>Attributes = Some [''lastValue'' \<mapsto> N ''12.75''], Item = None\<rparr>)
      ''Users'' no_options \<lparr>dynamoClient = None, store = ()\<rparr>) = Resolved 12 \<and>
   \<bar>2\<bar> \<le> MAX_SAFE_INTEGER \<and>
   outcome (increment (replying \<lparr>Attributes = Some [''lastValue'' \<mapsto> N (toString (Num 2))], Item = None\<rparr>)
      ''Users'' no_options \<lparr>dynamoClient = None, store = ()\<rparr>) = Resolved 2 \<and>
   not_numeric (S ''two'') \<and>
   (\<exists>e. outcome (increment (replying \<lparr>Attributes = Some [''lastValue'' \<mapsto> S ''two''], Item = None\<rparr>)
      ''Users'' no_options \<lparr>dynamoClient = None, store = ()\<rparr>) = Rejected e \<and> MalformedResponse e)"
proof -
  let ?w = "\<lparr>dynamoClient = None, store = ()\<rparr>"
  let ?fraction = "\<lparr>Attributes = Some [''lastValue'' \<mapsto> N ''12.75''], Item = None\<rparr>"
  let ?whole = "\<lparr>Attributes = Some [''lastValue'' \<mapsto> N (toString (Num 2))], Item = None\<rparr>"
  let ?bad = "\<lparr>Attributes = Some [''lastValue'' \<mapsto> S ''two''], Item = None\<rparr>"
  have quiet: "\<forall>x. callbacks_return no_options x"
    by (simp add: no_callbacks_return)
  have wrong_type: "not_numeric (S ''two'')"
    by (simp add: not_numeric_def)
  have truncated: "outcome (increment (replying ?fraction) ''Users'' no_options ?w) = Resolved 12"
  proof -
    have numeral:
      "Attributes ?fraction = Some [''lastValue'' \<mapsto> N ''12.75''] \<and>
       [''lastValue'' \<mapsto> N ''12.75''] (or_string (countAttribute no_options) DEFAULT_COUNT_ATTRIBUTE) =
         Some (N (decimal False ''12'' ''75'')) \<and>
       ''12'' \<noteq> [] \<and> list_all is_digit ''12'' \<and> list_all is_digit ''75'' \<and>
       int (numeral_value ''12'') \<le> MAX_SAFE_INTEGER"
      using example_numeral by (simp add: default_count_attribute)
    have "outcome (increment (replying ?fraction) ''Users'' no_options ?w) =
        Resolved (toward_zero (decimal_value False ''12'' ''75''))"
      using increment_response_checked [OF replying_increment_reply quiet,
          of ?fraction "''Users''" ?w] numeral
      by blast
    then show ?thesis
      by (simp add: example_numeral)
  qed
  have resolved: "outcome (increment (replying ?whole) ''Users'' no_options ?w) = Resolved 2"
    using increment_response_checked [OF replying_increment_reply quiet,
        of ?whole "''Users''" ?w] max_safe_1
    by (simp add: default_count_attribute)
  have failed: "\<exists>e. outcome (increment (replying ?bad) ''Users'' no_options ?w) = Rejected e \<and>
      MalformedResponse e"
    using increment_response_checked [OF replying_increment_reply quiet,
        of ?bad "''Users''" ?w] wrong_type
    by (simp add: default_count_attribute)
  show ?thesis
    using quiet wrong_type truncated resolved failed example_numeral max_safe_1
    by (simp add: replying_increment_reply)
qed

text \<open>
  C2, as the claim states it, fails for a number with a fraction: the store holds 2.5,
  \<^verbatim>\<open>parseInt\<close> (line 261) reads 2, and \<open>getLastValue\<close> resolves with 2.
\<close>

theorem getLastValue_fraction_counterexample:
  "outcome (getLastValue (replying \<lparr>Attributes = None, Item = Some [''lastValue'' \<mapsto> N ''2.5'']\<rparr>)
      ''Users'' no_options \<lparr>dynamoClient = None, store = ()\<rparr>) = Resolved 2 \<and>
   decimal False ''2'' ''5'' = ''2.5'' \<and>
   decimal_value False ''2'' ''5'' = 5 / 2 \<and>
   rat_of_int 2 \<noteq> 5 / 2"
proof -
  have "outcome (getLastValue (replying \<lparr>Attributes = None, Item = Some [''lastValue'' \<mapsto> N ''2.5'']\<rparr>)
      ''Users'' no_options \<lparr>dynamoClient = None, store = ()\<rparr>) = Resolved 2"
    by code_simp
  moreover have "decimal False ''2'' ''5'' = ''2.5''"
    by (simp add: decimal_def)
  moreover have "decimal_value False ''2'' ''5'' = 5 / 2"
    by (simp add: decimal_value_def numeral_value_def digit_value_def)
  ultimately show ?thesis
    by simp
qed

text \<open>
  The test of line 252 also finds the members every object inherits. With a count
  attribute named \<^verbatim>\<open>constructor\<close> and an item without attributes, the call is rejected
  where an item that lacks the count attribute should give 0.
\<close>

lemma inherited_name_read_rejected:
  "outcome (getLastValue (replying \<lparr>Attributes = None, Item = Some Map.empty\<rparr>)
      ''Users'' (no_options\<lparr>countAttribute := Some ''constructor''\<rparr>)
      \<lparr>dynamoClient = None, store = ()\<rparr>) = Rejected (Error ''Count attribute is not a number'')"
  by code_simp

text \<open>
  C2, amended. \<open>getLastValue\<close>, when the store fulfils the request and the callbacks of
  the options return: without an item, or with an item that lacks the count attribute
  (whose name is not that of an inherited member), the call resolves with 0; with a
  count attribute that is not of type \<^verbatim>\<open>N\<close> or whose \<^verbatim>\<open>N\<close> string has no digit, the call
  is rejected with an error of this module and does not resolve with 0; with an \<^verbatim>\<open>N\<close>
  string that is a plain decimal numeral with an integer part of at most \<open>2^53 - 1\<close>, the
  call resolves with that number truncated toward zero, which is the number itself when
  it is an integer.
\<close>

theorem getLastValue_response_checked:
  assumes "getLastValue_reply send counterId options w = SendFulfilled data"
    and "\<forall>x. callbacks_return options x"
  shows "(Item data = None \<or>
          (\<exists>item. Item data = Some item \<and>
             item (or_string (countAttribute options) DEFAULT_COUNT_ATTRIBUTE) = None \<and>
             or_string (countAttribute options) DEFAULT_COUNT_ATTRIBUTE \<notin> set Object_prototype_names) \<longrightarrow>
          outcome (getLastValue send counterId options w) = Resolved 0) \<and>
         (\<forall>item x.
            Item data = Some item \<and>
            item (or_string (countAttribute options) DEFAULT_COUNT_ATTRIBUTE) = Some x \<and>
            not_numeric x \<longrightarrow>
            (\<exists>e. outcome (getLastValue send counterId options w) = Rejected e \<and> MalformedResponse e) \<and>
            outcome (getLastValue send counterId options w) \<noteq> Resolved 0) \<and>
         (\<forall>item negative ds fs.
            Item data = Some item \<and>
            item (or_string (countAttribute options) DEFAULT_COUNT_ATTRIBUTE) =
              Some (N (decimal negative ds fs)) \<and>
            ds \<noteq> [] \<and> list_all is_digit ds \<and> list_all is_digit fs \<and>
            int (numeral_value ds) \<le> MAX_SAFE_INTEGER \<longrightarrow>
            outcome (getLastValue send counterId options w) =
              Resolved (toward_zero (decimal_value negative ds fs))) \<and>
         (\<forall>item n.
            Item data = Some item \<and>
            item (or_string (countAttribute options) DEFAULT_COUNT_ATTRIBUTE) =
              Some (N (toString (Num n))) \<and>
            \<bar>n\<bar> \<le> MAX_SAFE_INTEGER \<longrightarrow>
            outcome (getLastValue send counterId options w) = Resolved n)"
proof -
  let ?a = "or_string (countAttribute options) DEFAULT_COUNT_ATTRIBUTE"
  have out: "outcome (getLastValue send counterId options w) =
      (case getLastValue_count ?a data of Inr v \<Rightarrow> Resolved v | Inl e \<Rightarrow> Rejected e)"
    using assms by (simp add: getLastValue_outcome_returning)
  have numeral: "outcome (getLastValue send counterId options w) =
      Resolved (toward_zero (decimal_value negative ds fs))"
    if "Item data = Some item" and "item ?a = Some (N (decimal negative ds fs))"
      and "ds \<noteq> []" and "list_all is_digit ds" and "list_all is_digit fs"
    for item negative ds fs
    using getLastValue_count_decimal [OF that] by (simp add: out)
  have whole: "outcome (getLastValue send counterId options w) = Resolved n"
    if "Item data = Some item" and "item ?a = Some (N (toString (Num n)))" for item n
    using that by (simp add: out getLastValue_count_parsed parseInt_toString)
  have absent: "outcome (getLastValue send counterId options w) = Resolved 0"
    if "Item data = None \<or>
        (\<exists>item. Item data = Some item \<and> item ?a = None \<and> ?a \<notin> set Object_prototype_names)"
  proof (cases "Item data")
    case None
    then show ?thesis by (simp add: out getLastValue_count_def)
  next
    case (Some item)
    with that have "item ?a = None" and "?a \<notin> set Object_prototype_names" by simp_all
    then show ?thesis
      using Some by (simp add: out getLastValue_count_def get_member_missing)
  qed
  have other: "(\<exists>e. outcome (getLastValue send counterId options w) = Rejected e \<and> MalformedResponse e) \<and>
      outcome (getLastValue send counterId options w) \<noteq> Resolved 0"
    if "Item data = Some item" and "item ?a = Some x" and "not_numeric x" for item x
    using getLastValue_count_not_numeric [OF that] by (auto simp: out MalformedResponse_def)
  show ?thesis
    using numeral whole absent other by blast
qed

theorem getLastValue_response_checked_witness:
  "getLastValue_reply (replying \<lparr>Attributes = None, Item = None\<rparr>)
      ''Users'' no_options \<lparr>dynamoClient = None, store = ()\<rparr> =
     SendFulfilled \<lparr>Attributes = None, Item = None\<rparr> \<and>
   (\<forall>x. callbacks_return no_options x) \<and>
   outcome (getLastValue (replying \<lparr>Attributes = None, Item = None\<rparr>)
      ''Users'' no_options \<lparr>dynamoClient = None, store = ()\<rparr>) = Resolved 0 \<and>
   ''lastValue'' \<notin> set Object_prototype_names \<and>
   outcome (getLastValue (replying \<lparr>Attributes = None, Item = Some [''id'' \<mapsto> S ''Users'']\<rparr>)
      ''Users'' no_options \<lparr>dynamoClient = None, store = ()\<rparr>) = Resolved 0 \<and>
   not_numeric (S ''two'') \<and>
   (\<exists>e. outcome (getLastValue (replying \<lparr>Attributes = None, Item = Some [''lastValue'' \<mapsto> S ''two'']\<rparr>)
      ''Users'' no_options \<lparr>dynamoClient = None, store = ()\<rparr>) = Rejected e \<and> MalformedResponse e) \<and>
   decimal False ''12'' ''75'' = ''12.75'' \<and> ''12'' \<noteq> [] \<and> list_all is_digit ''12'' \<and>
   list_all is_digit ''75'' \<and> int (numeral_value ''12'') \<le> MAX_SAFE_INTEGER \<and>
   outcome (getLastValue (replying \<lparr>Attributes = None, Item = Some [''lastValue'' \<mapsto> N ''12.75'']\<rparr>)
      ''Users'' no_options \<lparr>dynamoClient = None, store = ()\<rparr>) = Resolved 12 \<and>
   \<bar>2\<bar> \<le> MAX_SAFE_INTEGER \<and>
   outcome (getLastValue (replying \<lparr>Attributes = None, Item = Some [''lastValue'' \<mapsto> N (toString (Num 2))]\<rparr>)
      ''Users'' no_options \<lparr>dynamoClient = None, store = ()\<rparr>) = Resolved 2"
proof -
  let ?w = "\<lparr>dynamoClient = None, store = ()\<rparr>"
  let ?none = "\<lparr>Attributes = None, Item = None\<rparr>"
  let ?other = "\<lparr>Attributes = None, Item = Some [''id'' \<mapsto> S ''Users'']\<rparr>"
  let ?fraction = "\<lparr>Attributes = None, Item = Some [''lastValue'' \<mapsto> N ''12.75'']\<rparr>"
  let ?whole = "\<lparr>Attributes = None, Item = Some [''lastValue'' \<mapsto> N (toString (Num 2))]\<rparr>"
  let ?bad = "\<lparr>Attributes = None, Item = Some [''lastValue'' \<mapsto> S ''two'']\<rparr>"
  have quiet: "\<forall>x. callbacks_return no_options x"
    by (simp add: no_callbacks_return)
  have wrong_type: "not_numeric (S ''two'')"
    by (simp add: not_numeric_def)
  have zero: "outcome (getLastValue (replying ?none) ''Users'' no_options ?w) = Resolved 0"
    using getLastValue_response_checked [OF replying_getLastValue_reply quiet,
        of ?none "''Users''" ?w]
    by simp
  have lacking: "outcome (getLastValue (replying ?other) ''Users'' no_options ?w) = Resolved 0"
    using getLastValue_response_checked [OF replying_getLastValue_reply quiet,
        of ?other "''Users''" ?w] default_not_inherited
    by (simp add: default_count_attribute)
  have truncated: "outcome (getLastValue (replying ?fraction) ''Users'' no_options ?w) = Resolved 12"
  proof -
    have numeral:
      "Item ?fraction = Some [''lastValue'' \<mapsto> N ''12.75''] \<and>
       [''lastValue'' \<mapsto> N ''12.75''] (or_string (countAttribute no_options) DEFAULT_COUNT_ATTRIBUTE) =
         Some (N (decimal False ''12'' ''75'')) \<and>
       ''12'' \<noteq> [] \<and> list_all is_digit ''12'' \<and> list_all is_digit ''75'' \<and>
       int (numeral_value ''12'') \<le> MAX_SAFE_INTEGER"
      using example_numeral by (simp add: default_count_attribute)
    have "outcome (getLastValue (replying ?fraction) ''Users'' no_options ?w) =
        Resolved (toward_zero (decimal_value False ''12'' ''75''))"
      using getLastValue_response_checked [OF replying_getLastValue_reply quiet,
          of ?fraction "''Users''" ?w] numeral
      by blast
    then show ?thesis
      by (simp add: example_numeral)
  qed
  have resolved: "outcome (getLastValue (replying ?whole) ''Users'' no_options ?w) = Resolved 2"
    using getLastValue_response_checked [OF replying_getLastValue_reply quiet,
        of ?whole "''Users''" ?w] max_safe_1
    by (simp add: default_count_attribute)
  have failed: "\<exists>e. outcome (getLastValue (replying ?bad) ''Users'' no_options ?w) = Rejected e \<and>
      MalformedResponse e"
    using getLastValue_response_checked [OF replying_getLastValue_reply quiet,
        of ?bad "''Users''" ?w] wrong_type
    by (simp add: default_count_attribute)
  show ?thesis
    using quiet wrong_type zero lacking truncated resolved failed example_numeral max_safe_1
      default_not_inherited
    by (simp add: replying_getLastValue_reply)
qed

section \<open>Properties of the request\<close>

text \<open>
  C3, as the claim states it, fails for the amount 0: \<^verbatim>\<open>options.increment || 1\<close> takes
  the default, the request adds 1 and the example store ends at 1.
\<close>

theorem increment_amount_zero_counterexample:
  "request_of (command_sent (increment example_send ''Users''
       (no_options\<lparr>increment_amount := Some (Exact (Num 0))\<rparr>) \<lparr>dynamoClient = None, store = 0\<rparr>))
     ''ExpressionAttributeValues'' = Some (AttrMap [('':increment'', N ''1'')]) \<and>
   request_of (command_sent (increment example_send ''Users''
       (no_options\<lparr>increment_amount := Some (Exact (Num 0))\<rparr>) \<lparr>dynamoClient = None, store = 0\<rparr>))
     ''ExpressionAttributeValues'' \<noteq> Some (AttrMap [('':increment'', N (toString (Num 0)))]) \<and>
   toString (Num 0) = ''0'' \<and>
   store (world_after (increment example_send ''Users''
       (no_options\<lparr>increment_amount := Some (Exact (Num 0))\<rparr>) \<lparr>dynamoClient = None, store = 0\<rparr>)) = 1"
  by code_simp

text \<open>
  C3, amended. When the \<^verbatim>\<open>dynamodb\<close> option replaces neither the update expression nor
  its values, the request adds \<^verbatim>\<open>:increment\<close> to the count attribute. For every amount
  of the options other than 0, of either sign, \<^verbatim>\<open>:increment\<close> is the text that
  \<^verbatim>\<open>toString\<close> gives for the amount: for an integer of magnitude at most \<open>2^53 - 1\<close> its
  numeral, which reads back as the same integer. It is 1 when the options give no amount
  or the amount 0.
\<close>

theorem increment_amount_added:
  assumes "\<not> supplied options ''UpdateExpression''"
    and "\<not> supplied options ''ExpressionAttributeValues''"
  shows "request_of (command_sent (increment send counterId options w)) ''UpdateExpression'' =
           Some (Str (''ADD '' @ or_string (countAttribute options) DEFAULT_COUNT_ATTRIBUTE @ '' :increment'')) \<and>
         (\<forall>n. increment_amount options = Some (Exact (Num n)) \<and> n \<noteq> 0 \<and> \<bar>n\<bar> \<le> MAX_SAFE_INTEGER \<longrightarrow>
            request_of (command_sent (increment send counterId options w)) ''ExpressionAttributeValues'' =
              Some (AttrMap [('':increment'', N (toString (Num n)))]) \<and>
            parseInt (toString (Num n)) = Num n) \<and>
         (\<forall>s. increment_amount options = Some (Printed s) \<and> other_number s \<longrightarrow>
            request_of (command_sent (increment send counterId options w)) ''ExpressionAttributeValues'' =
              Some (AttrMap [('':increment'', N s)])) \<and>
         (increment_amount options = None \<or> increment_amount options = Some (Exact (Num 0)) \<longrightarrow>
            request_of (command_sent (increment send counterId options w)) ''ExpressionAttributeValues'' =
              Some (AttrMap [('':increment'', N ''1'')]))"
  using assms
  by (auto simp add: request_increment_unsupplied increment_derived_def or_number_def
      amount_toString_def DEFAULT_INCREMENT_def toString_1 parseInt_toString)

theorem increment_amount_added_witness:
  "\<not> supplied (no_options\<lparr>increment_amount := Some (Exact (Num (- 1)))\<rparr>) ''UpdateExpression'' \<and>
   \<not> supplied (no_options\<lparr>increment_amount := Some (Exact (Num (- 1)))\<rparr>) ''ExpressionAttributeValues'' \<and>
   increment_amount (no_options\<lparr>increment_amount := Some (Exact (Num (- 1)))\<rparr>) = Some (Exact (Num (- 1))) \<and>
   (- 1 :: int) \<noteq> 0 \<and> \<bar>- 1\<bar> \<le> MAX_SAFE_INTEGER \<and>
   request_of (command_sent (increment example_send ''Users''
       (no_options\<lparr>increment_amount := Some (Exact (Num (- 1)))\<rparr>) \<lparr>dynamoClient = None, store = 0\<rparr>))
     ''ExpressionAttributeValues'' = Some (AttrMap [('':increment'', N ''-1'')]) \<and>
   parseInt ''-1'' = Num (- 1) \<and>
   increment_amount (no_options\<lparr>increment_amount := Some (Printed ''0.5'')\<rparr>) = Some (Printed ''0.5'') \<and>
   other_number ''0.5'' \<and>
   request_of (command_sent (increment example_send ''Users''
       (no_options\<lparr>increment_amount := Some (Printed ''0.5'')\<rparr>) \<lparr>dynamoClient = None, store = 0\<rparr>))
     ''ExpressionAttributeValues'' = Some (AttrMap [('':increment'', N ''0.5'')]) \<and>
   increment_amount no_options = None \<and>
   request_of (command_sent (increment example_send ''Users'' no_options \<lparr>dynamoClient = None, store = 0\<rparr>))
     ''ExpressionAttributeValues'' = Some (AttrMap [('':increment'', N ''1'')])"
proof -
  let ?minus = "no_options\<lparr>increment_amount := Some (Exact (Num (- 1)))\<rparr>"
  let ?half = "no_options\<lparr>increment_amount := Some (Printed ''0.5'')\<rparr>"
  let ?w = "\<lparr>dynamoClient = None, store = (0::int)\<rparr>"
  have free: "\<not> supplied ?minus ''UpdateExpression''" "\<not> supplied ?minus ''ExpressionAttributeValues''"
    "\<not> supplied no_options ''UpdateExpression''" "\<not> supplied no_options ''ExpressionAttributeValues''"
    "\<not> supplied ?half ''UpdateExpression''" "\<not> supplied ?half ''ExpressionAttributeValues''"
    by (simp_all add: supplied_def no_options_def)
  have amount: "increment_amount ?minus = Some (Exact (Num (- 1)))"
    and half: "increment_amount ?half = Some (Printed ''0.5'')"
    and none: "increment_amount no_options = None"
    by (simp_all add: no_options_def)
  have printed: "toString (Num (- 1)) = ''-1''" and fractional: "other_number ''0.5''"
    by code_simp+
  have minus:
    "request_of (command_sent (increment example_send ''Users'' ?minus ?w)) ''ExpressionAttributeValues'' =
       Some (AttrMap [('':increment'', N ''-1'')]) \<and> parseInt ''-1'' = Num (- 1)"
    using increment_amount_added [OF free(1) free(2), of example_send "''Users''" ?w] amount max_safe_1
    by (simp add: printed)
  have fraction:
    "request_of (command_sent (increment example_send ''Users'' ?half ?w)) ''ExpressionAttributeValues'' =
       Some (AttrMap [('':increment'', N ''0.5'')])"
    using increment_amount_added [OF free(5) free(6), of example_send "''Users''" ?w] half
      fractional
    by simp
  have default:
    "request_of (command_sent (increment example_send ''Users'' no_options ?w)) ''ExpressionAttributeValues'' =
       Some (AttrMap [('':increment'', N ''1'')])"
    using increment_amount_added [OF free(3) free(4), of example_send "''Users''" ?w] none
    by simp
  show ?thesis
    using free amount half none minus fraction default max_safe_1 fractional by simp
qed

text \<open>
  C5. The members of the \<^verbatim>\<open>dynamodb\<close> option are merged last into the request of
  \<open>increment\<close> and of \<open>getLastValue\<close>: a member it has replaces the derived member of
  that name, whichever it is, and a member it lacks stays as derived.
\<close>

theorem raw_fields_merged_last:
  assumes "dynamodb options = Some d"
  shows "(d k = Some v \<longrightarrow>
            request_of (command_sent (increment send counterId options w)) k = Some v \<and>
            request_of (command_sent (getLastValue send counterId options w)) k = Some v) \<and>
         (d k = None \<longrightarrow>
            request_of (command_sent (increment send counterId options w)) k =
              increment_derived counterId options k \<and>
            request_of (command_sent (getLastValue send counterId options w)) k =
              getLastValue_derived counterId options k)"
  using assms
  by (simp add: command_sent_increment command_sent_getLastValue request_of_def
      increment_params_def getLastValue_params_def spread_supplied spread_kept)

theorem raw_fields_merged_last_witness:
  "dynamodb (no_options\<lparr>dynamodb := Some [''Key'' \<mapsto> AttrMap [(''pk'', S ''other'')]]\<rparr>) =
     Some [''Key'' \<mapsto> AttrMap [(''pk'', S ''other'')]] \<and>
   [''Key'' \<mapsto> AttrMap [(''pk'', S ''other'')]] ''Key'' = Some (AttrMap [(''pk'', S ''other'')]) \<and>
   request_of (command_sent (increment example_send ''Users''
       (no_options\<lparr>dynamodb := Some [''Key'' \<mapsto> AttrMap [(''pk'', S ''other'')]]\<rparr>)
       \<lparr>dynamoClient = None, store = 0\<rparr>)) ''Key'' = Some (AttrMap [(''pk'', S ''other'')]) \<and>
   request_of (command_sent (getLastValue example_send ''Users''
       (no_options\<lparr>dynamodb := Some [''Key'' \<mapsto> AttrMap [(''pk'', S ''other'')]]\<rparr>)
       \<lparr>dynamoClient = None, store = 0\<rparr>)) ''Key'' = Some (AttrMap [(''pk'', S ''other'')]) \<and>
   [''Key'' \<mapsto> AttrMap [(''pk'', S ''other'')]] ''TableName'' = None \<and>
   request_of (command_sent (increment example_send ''Users''
       (no_options\<lparr>dynamodb := Some [''Key'' \<mapsto> AttrMap [(''pk'', S ''other'')]]\<rparr>)
       \<lparr>dynamoClient = None, store = 0\<rparr>)) ''TableName'' = Some (Str ''AtomicCounters'')"
proof -
  let ?d = "[''Key'' \<mapsto> AttrMap [(''pk'', S ''other'')]]"
  let ?options = "no_options\<lparr>dynamodb := Some ?d\<rparr>"
  let ?w = "\<lparr>dynamoClient = None, store = (0::int)\<rparr>"
  have given: "dynamodb ?options = Some ?d"
    by simp
  have collides: "?d ''Key'' = Some (AttrMap [(''pk'', S ''other'')])" and free: "?d ''TableName'' = None"
    by simp_all
  have derived: "increment_derived ''Users'' ?options ''TableName'' = Some (Str ''AtomicCounters'')"
    by (simp add: increment_derived_def no_options_def or_string_def DEFAULT_TABLE_NAME_def)
  have replaced:
    "request_of (command_sent (increment example_send ''Users'' ?options ?w)) ''Key'' =
       Some (AttrMap [(''pk'', S ''other'')]) \<and>
     request_of (command_sent (getLastValue example_send ''Users'' ?options ?w)) ''Key'' =
       Some (AttrMap [(''pk'', S ''other'')])"
    using raw_fields_merged_last [OF given, of "''Key''" "AttrMap [(''pk'', S ''other'')]"
        example_send "''Users''" ?w] collides
    by blast
  have kept:
    "request_of (command_sent (increment example_send ''Users'' ?options ?w)) ''TableName'' =
       Some (Str ''AtomicCounters'')"
    using raw_fields_merged_last [OF given, of "''TableName''" "AttrMap []"
        example_send "''Users''" ?w] free derived
    by simp
  show ?thesis
    using given collides free replaced kept by simp
qed

text \<open>
  C9. \<open>getLastValue\<close> passes one command to \<^verbatim>\<open>client.send\<close>, a \<^verbatim>\<open>GetItemCommand\<close>, and
  settles from the reply to it. Unless the \<^verbatim>\<open>dynamodb\<close> option replaces them, the
  command reads the item under the key of \<open>counterId\<close> and projects the count attribute.
  A store whose reads change nothing is unchanged by the call.
\<close>

theorem getLastValue_reads_only:
  "client_used (getLastValue send counterId options w) = fst (getDynamoClient (client options) w) \<and>
   command_sent (getLastValue send counterId options w) =
     GetItemCommand (getLastValue_params counterId options) \<and>
   store (world_after (getLastValue send counterId options w)) =
     snd (send (client_used (getLastValue send counterId options w))
            (GetItemCommand (getLastValue_params counterId options)) (store w)) \<and>
   outcome (getLastValue send counterId options w) =
     promise (snd (on_reply options
       (getLastValue_then options (or_string (countAttribute options) DEFAULT_COUNT_ATTRIBUTE))
       (fst (send (client_used (getLastValue send counterId options w))
               (GetItemCommand (getLastValue_params counterId options)) (store w)))
       \<lparr>calls = [], promise = Pending\<rparr>)) \<and>
   (\<not> supplied options ''ProjectionExpression'' \<longrightarrow>
      getLastValue_params counterId options ''ProjectionExpression'' =
        Some (Str (or_string (countAttribute options) DEFAULT_COUNT_ATTRIBUTE))) \<and>
   (\<not> supplied options ''Key'' \<longrightarrow>
      getLastValue_params counterId options ''Key'' =
        Some (AttrMap [(or_string (keyAttribute options) DEFAULT_KEY_ATTRIBUTE, S counterId)])) \<and>
   ((\<forall>c r st. snd (send c (GetItemCommand r) st) = st) \<longrightarrow>
      store (world_after (getLastValue send counterId options w)) = store w)"
proof -
  obtain c w1 where resolved: "getDynamoClient (client options) w = (c, w1)"
    by (cases "getDynamoClient (client options) w")
  have same: "store w1 = store w"
    using store_getDynamoClient [of "client options" w] resolved by simp
  have reply: "getLastValue_reply send counterId options w =
      fst (send (client_used (getLastValue send counterId options w))
             (GetItemCommand (getLastValue_params counterId options)) (store w))"
    by (simp add: getLastValue_reply_def client_used_getLastValue resolved same)
  show ?thesis
    using store_after_getLastValue [of send counterId options w]
      getLastValue_finished [of send counterId options w]
    by (simp add: reply command_sent_getLastValue client_used_getLastValue
        getLastValue_params_def spread_unsupplied getLastValue_derived_def)
qed

theorem getLastValue_reads_only_witness:
  "\<not> supplied no_options ''ProjectionExpression'' \<and>
   getLastValue_params ''Users'' no_options ''ProjectionExpression'' = Some (Str ''lastValue'') \<and>
   \<not> supplied no_options ''Key'' \<and>
   getLastValue_params ''Users'' no_options ''Key'' = Some (AttrMap [(''id'', S ''Users'')]) \<and>
   (\<forall>c r st. snd (example_send c (GetItemCommand r) st) = st) \<and>
   store (world_after (getLastValue example_send ''Users'' no_options \<lparr>dynamoClient = None, store = 7\<rparr>)) = 7"
proof -
  have free: "\<not> supplied no_options ''ProjectionExpression''" "\<not> supplied no_options ''Key''"
    by (simp_all add: supplied_def no_options_def)
  have name: "or_string (countAttribute no_options) DEFAULT_COUNT_ATTRIBUTE = ''lastValue''"
    "or_string (keyAttribute no_options) DEFAULT_KEY_ATTRIBUTE = ''id''"
    by (simp_all add: or_string_def no_options_def DEFAULT_COUNT_ATTRIBUTE_def DEFAULT_KEY_ATTRIBUTE_def)
  have reads: "\<forall>c r st. snd (example_send c (GetItemCommand r) st) = st"
    by (simp add: example_send_read)
  show ?thesis
    using getLastValue_reads_only [of example_send "''Users''" no_options
        "\<lparr>dynamoClient = None, store = 7\<rparr>"] free name reads
    by simp
qed

text \<open>
  C10. Neither operation checks \<open>counterId\<close>: for every string, the empty one included,
  the request is sent to the store and, unless the \<^verbatim>\<open>dynamodb\<close> option replaces the
  key, its key holds that string under the key attribute.
\<close>

theorem counterId_not_validated:
  assumes "\<not> supplied options ''Key''"
  shows "request_of (command_sent (increment send counterId options w)) ''Key'' =
           Some (AttrMap [(or_string (keyAttribute options) DEFAULT_KEY_ATTRIBUTE, S counterId)]) \<and>
         request_of (command_sent (getLastValue send counterId options w)) ''Key'' =
           Some (AttrMap [(or_string (keyAttribute options) DEFAULT_KEY_ATTRIBUTE, S counterId)]) \<and>
         store (world_after (increment send counterId options w)) =
           snd (send (client_used (increment send counterId options w))
                  (command_sent (increment send counterId options w)) (store w)) \<and>
         store (world_after (getLastValue send counterId options w)) =
           snd (send (client_used (getLastValue send counterId options w))
                  (command_sent (getLastValue send counterId options w)) (store w))"
  using assms store_after_increment [of send counterId options w]
    store_after_getLastValue [of send counterId options w]
  by (simp add: request_increment_unsupplied request_getLastValue_unsupplied
      increment_derived_def getLastValue_derived_def)

theorem counterId_not_validated_witness:
  "\<not> supplied no_options ''Key'' \<and>
   request_of (command_sent (increment example_send [] no_options \<lparr>dynamoClient = None, store = 0\<rparr>))
     ''Key'' = Some (AttrMap [(''id'', S [])]) \<and>
   request_of (command_sent (getLastValue example_send [] no_options \<lparr>dynamoClient = None, store = 0\<rparr>))
     ''Key'' = Some (AttrMap [(''id'', S [])])"
proof -
  have free: "\<not> supplied no_options ''Key''"
    by (simp add: supplied_def no_options_def)
  have name: "or_string (keyAttribute no_options) DEFAULT_KEY_ATTRIBUTE = ''id''"
    by (simp add: or_string_def no_options_def DEFAULT_KEY_ATTRIBUTE_def)
  show ?thesis
    using counterId_not_validated [OF free, of example_send "[]" "\<lparr>dynamoClient = None, store = 0\<rparr>"]
      free name
    by simp
qed

section \<open>Client resolution\<close>

lemma getDynamoClient_override: "getDynamoClient (Some c) w = (c, w)"
  by (simp add: getDynamoClient_def)

text \<open>
  C8. A client passed to a call is returned as it is and the shared client is left alone.
  Without one, a missing shared client is created with the default parameters, stored
  and returned, and an existing shared client is returned. \<open>setClient\<close> replaces the
  shared client whatever it was; \<open>increment\<close> and \<open>getLastValue\<close> called afterwards
  without a client of their own send their request through it. \<open>getClient\<close> is the
  resolution without a client.
\<close>

theorem client_resolution:
  "getDynamoClient (Some c) w = (c, w) \<and>
   (dynamoClient w = None \<longrightarrow>
      getDynamoClient None w = (DynamoDBClient [], w\<lparr>dynamoClient := Some (DynamoDBClient [])\<rparr>)) \<and>
   (dynamoClient w = Some c' \<longrightarrow> getDynamoClient None w = (c', w)) \<and>
   setClient c w = w\<lparr>dynamoClient := Some c\<rparr> \<and>
   getDynamoClient None (setClient c w) = (c, setClient c w) \<and>
   getClient w = getDynamoClient None w \<and>
   (client options = None \<longrightarrow>
      client_used (increment send counterId options (setClient c w)) = c \<and>
      client_used (getLastValue send counterId options (setClient c w)) = c)"
  by (simp add: getDynamoClient_def setClient_def getClient_def client_used_increment
      client_used_getLastValue)

theorem client_resolution_witness:
  "dynamoClient \<lparr>dynamoClient = None, store = (0::int)\<rparr> = None \<and>
   getDynamoClient None \<lparr>dynamoClient = None, store = (0::int)\<rparr> =
     (DynamoDBClient [], \<lparr>dynamoClient = Some (DynamoDBClient []), store = 0\<rparr>) \<and>
   dynamoClient \<lparr>dynamoClient = Some (DynamoDBClient [(''region'', ''us-east-1'')]), store = (0::int)\<rparr> =
     Some (DynamoDBClient [(''region'', ''us-east-1'')]) \<and>
   getDynamoClient None \<lparr>dynamoClient = Some (DynamoDBClient [(''region'', ''us-east-1'')]), store = (0::int)\<rparr> =
     (DynamoDBClient [(''region'', ''us-east-1'')],
      \<lparr>dynamoClient = Some (DynamoDBClient [(''region'', ''us-east-1'')]), store = 0\<rparr>) \<and>
   client no_options = None \<and>
   client_used (increment example_send ''Users'' no_options
      (setClient (DynamoDBClient [(''region'', ''us-east-1'')]) \<lparr>dynamoClient = None, store = 0\<rparr>)) =
     DynamoDBClient [(''region'', ''us-east-1'')]"
proof -
  let ?east = "DynamoDBClient [(''region'', ''us-east-1'')]"
  let ?w0 = "\<lparr>dynamoClient = None, store = (0::int)\<rparr>"
  let ?w1 = "\<lparr>dynamoClient = Some ?east, store = (0::int)\<rparr>"
  have absent: "dynamoClient ?w0 = None" and present: "dynamoClient ?w1 = Some ?east"
    and plain: "client no_options = None"
    by (simp_all add: no_options_def)
  have created: "getDynamoClient None ?w0 = (DynamoDBClient [], ?w0\<lparr>dynamoClient := Some (DynamoDBClient [])\<rparr>)"
    using client_resolution [of ?east ?w0 ?east no_options example_send "''Users''"] absent
    by blast
  have shared: "getDynamoClient None ?w1 = (?east, ?w1)"
    using client_resolution [of ?east ?w1 ?east no_options example_send "''Users''"] present
    by blast
  have used: "client_used (increment example_send ''Users'' no_options (setClient ?east ?w0)) = ?east"
    using client_resolution [of ?east ?w0 ?east no_options example_send "''Users''"] plain
    by blast
  show ?thesis
    using absent present plain created shared used by simp
qed

section \<open>Properties of the promise-like object\<close>

text \<open>
  C7. On a resolved object \<open>done\<close> calls the new handler at once, one time, with the
  value, and \<open>fail\<close> does nothing; on a rejected object \<open>fail\<close> calls the new handler at
  once, one time, with the error, and \<open>done\<close> does nothing.
\<close>

theorem late_registration:
  "(is_resolved p x \<longrightarrow>
      done_method cb p = (cb_throws cb x, p\<lparr>invoked := invoked p @ [Call (cb_name cb) None x]\<rparr>) \<and>
      fail_method cb p = (None, p)) \<and>
   (is_rejected p x \<longrightarrow>
      fail_method cb p = (cb_throws cb x, p\<lparr>invoked := invoked p @ [Call (cb_name cb) None x]\<rparr>) \<and>
      done_method cb p = (None, p))"
  by (simp add: is_resolved_def is_rejected_def done_method_def fail_method_def invoke_def)

theorem late_registration_witness:
  "is_resolved (snd (settle (Resolved 5) new_AtomicCounterPromiseImpl)) (Number 5) \<and>
   invoked (snd (done_method \<lparr>cb_name = ''late'', cb_throws = (\<lambda>_. None)\<rparr>
      (snd (settle (Resolved 5) new_AtomicCounterPromiseImpl)))) = [Call ''late'' None (Number 5)] \<and>
   invoked (snd (fail_method \<lparr>cb_name = ''late'', cb_throws = (\<lambda>_. None)\<rparr>
      (snd (settle (Resolved 5) new_AtomicCounterPromiseImpl)))) = [] \<and>
   is_rejected (snd (settle (Rejected (External ''timeout'')) new_AtomicCounterPromiseImpl)) (External ''timeout'') \<and>
   invoked (snd (fail_method \<lparr>cb_name = ''late'', cb_throws = (\<lambda>_. None)\<rparr>
      (snd (settle (Rejected (External ''timeout'')) new_AtomicCounterPromiseImpl)))) =
     [Call ''late'' None (External ''timeout'')] \<and>
   invoked (snd (done_method \<lparr>cb_name = ''late'', cb_throws = (\<lambda>_. None)\<rparr>
      (snd (settle (Rejected (External ''timeout'')) new_AtomicCounterPromiseImpl)))) = []"
proof -
  let ?late = "\<lparr>cb_name = ''late'', cb_throws = (\<lambda>_. None)\<rparr>"
  let ?p = "snd (settle (Resolved 5) new_AtomicCounterPromiseImpl)"
  let ?q = "snd (settle (Rejected (External ''timeout'')) new_AtomicCounterPromiseImpl)"
  have p: "?p = new_AtomicCounterPromiseImpl\<lparr>resolved := True, value_field := Number 5\<rparr>"
    by (simp add: settle_def try_catch_def on_fulfilled_def seq_def new_AtomicCounterPromiseImpl_def)
  have q: "?q = new_AtomicCounterPromiseImpl\<lparr>rejected := True, value_field := External ''timeout''\<rparr>"
    by (simp add: settle_def on_rejected_def seq_def new_AtomicCounterPromiseImpl_def)
  have res: "is_resolved ?p (Number 5)" and rej: "is_rejected ?q (External ''timeout'')"
    unfolding p q by (simp_all add: is_resolved_def is_rejected_def new_AtomicCounterPromiseImpl_def)
  have empty: "invoked ?p = []" "invoked ?q = []"
    unfolding p q by (simp_all add: new_AtomicCounterPromiseImpl_def)
  have a: "invoked (snd (done_method ?late ?p)) = [Call ''late'' None (Number 5)]"
    "invoked (snd (fail_method ?late ?p)) = []"
    using late_registration [of ?p "Number 5" ?late] res empty by simp_all
  have b: "invoked (snd (fail_method ?late ?q)) = [Call ''late'' None (External ''timeout'')]"
    "invoked (snd (done_method ?late ?q)) = []"
    using late_registration [of ?q "External ''timeout''" ?late] rej empty by simp_all
  show ?thesis
    using res rej a b by simp
qed

section \<open>Callbacks and observers that throw\<close>

text \<open>
  C4 asks that exactly one of \<open>success\<close> and \<open>error\<close> is called and \<open>complete\<close> once.
  The callbacks are called inside the \<^verbatim>\<open>try\<close> block, so a value thrown by one of them
  is handled as a failure of the operation. With a \<open>success\<close> callback that throws,
  \<open>increment\<close> calls \<open>success\<close> and then \<open>error\<close>, and rejects although the store has
  counted. With a \<open>complete\<close> callback that throws on a number, \<open>getLastValue\<close> calls
  \<open>success\<close> and \<open>error\<close>, and \<open>complete\<close> twice.
\<close>

theorem throwing_callback_reported_as_failure:
  "callbacks_called (increment example_send ''Users''
      (no_options\<lparr>success := Some \<lparr>cb_name = ''success'', cb_throws = (\<lambda>_. Some (External ''boom''))\<rparr>,
                  error := Some \<lparr>cb_name = ''error'', cb_throws = (\<lambda>_. None)\<rparr>,
                  complete := Some \<lparr>cb_name = ''complete'', cb_throws = (\<lambda>_. None)\<rparr>\<rparr>)
      \<lparr>dynamoClient = None, store = 0\<rparr>) =
     [Call ''success'' None (Number 1), Call ''error'' None (External ''boom''),
      Call ''complete'' None (External ''boom'')] \<and>
   outcome (increment example_send ''Users''
      (no_options\<lparr>success := Some \<lparr>cb_name = ''success'', cb_throws = (\<lambda>_. Some (External ''boom''))\<rparr>,
                  error := Some \<lparr>cb_name = ''error'', cb_throws = (\<lambda>_. None)\<rparr>,
                  complete := Some \<lparr>cb_name = ''complete'', cb_throws = (\<lambda>_. None)\<rparr>\<rparr>)
      \<lparr>dynamoClient = None, store = 0\<rparr>) = Rejected (External ''boom'') \<and>
   callbacks_called (getLastValue example_send ''Users''
      (no_options\<lparr>success := Some \<lparr>cb_name = ''success'', cb_throws = (\<lambda>_. None)\<rparr>,
                  error := Some \<lparr>cb_name = ''error'', cb_throws = (\<lambda>_. None)\<rparr>,
                  complete := Some \<lparr>cb_name = ''complete'',
                     cb_throws = (\<lambda>x. case x of Number _ \<Rightarrow> Some (External ''boom'') | _ \<Rightarrow> None)\<rparr>\<rparr>)
      \<lparr>dynamoClient = None, store = 7\<rparr>) =
     [Call ''success'' None (Number 7), Call ''complete'' None (Number 7),
      Call ''error'' None (External ''boom''), Call ''complete'' None (External ''boom'')]"
  by code_simp

text \<open>
  C6 asks that the object leaves the pending state once, for one of the two settled
  states, and calls each queued observer once. The \<^verbatim>\<open>catch\<close> handler of the constructor
  also runs when an observer throws in the \<^verbatim>\<open>then\<close> handler. Below, \<open>increment\<close>
  resolves with 1 and the second \<open>always\<close> observer throws on a number: the object ends
  both resolved and rejected, its value is the thrown one, the first \<open>always\<close> observer
  is called twice, the \<open>fail\<close> observer is called, and a \<open>fail\<close> handler registered
  afterwards is called too.
\<close>

theorem throwing_observer_settles_twice:
  "(let p = snd (always_method \<lparr>cb_name = ''always2'',
                     cb_throws = (\<lambda>x. case x of Number _ \<Rightarrow> Some (External ''boom'') | _ \<Rightarrow> None)\<rparr>
            (snd (always_method \<lparr>cb_name = ''always1'', cb_throws = (\<lambda>_. None)\<rparr>
            (snd (fail_method \<lparr>cb_name = ''fail'', cb_throws = (\<lambda>_. None)\<rparr>
            (snd (done_method \<lparr>cb_name = ''done'', cb_throws = (\<lambda>_. None)\<rparr>
               new_AtomicCounterPromiseImpl)))))));
        q = snd (settle (outcome (increment example_send ''Users'' no_options
                   \<lparr>dynamoClient = None, store = 0\<rparr>)) p)
    in is_pending p \<and> resolved q \<and> rejected q \<and> value_field q = External ''boom'' \<and>
       invoked q =
         [Call ''done'' None (Number 1), Call ''always1'' None (Number 1),
          Call ''always2'' None (Number 1), Call ''fail'' None (External ''boom''),
          Call ''always1'' None (External ''boom''), Call ''always2'' None (External ''boom'')] \<and>
       invoked (snd (fail_method \<lparr>cb_name = ''late'', cb_throws = (\<lambda>_. None)\<rparr> q)) =
         invoked q @ [Call ''late'' None (External ''boom'')])"
  by code_simp

end
